theory Spec2Isabelle
  imports Main "HOL-Library.Sublist"
begin

section \<open>The chat store of \<^verbatim>\<open>Sqlite/ChatSql.py\<close>\<close>

text \<open>
  The module keeps three tables (mask, dialogue, message) in one SQLite file and wraps
  them in the class \<^verbatim>\<open>ChatSql\<close>. The embedding below follows the module top to
  bottom: the table rows as records, the tables as lists in rowid order, each method as
  a function from the store to a returned value, the new store and the lines it printed
  or logged.

  Python strings are modelled as \<^typ>\<open>string\<close> holding the UTF-8 bytes of the text: the
  Chinese labels of the report lines are written out as their bytes. Splitting on a
  space, searching for an ASCII word and joining with a newline act on bytes exactly as
  they act on code points. Python integers are \<^typ>\<open>int\<close>.
\<close>

subsection \<open>Python built-ins used by the module\<close>

text \<open>\<^verbatim>\<open>s.split(' ')\<close>: cut at every single space, empty pieces kept, never an empty list.\<close>

fun split_on :: "char \<Rightarrow> string \<Rightarrow> string list" where
  "split_on c [] = [[]]"
| "split_on c (x # xs) =
     (if x = c then [] # split_on c xs
      else (case split_on c xs of
              [] \<Rightarrow> [[x]]
            | w # ws \<Rightarrow> (x # w) # ws))"

text \<open>\<^verbatim>\<open>sub in s\<close> on strings: \<open>sub\<close> occurs in \<open>s\<close> as a contiguous piece.\<close>

definition py_in :: "string \<Rightarrow> string \<Rightarrow> bool" where
  "py_in sub s = sublist sub s"

text \<open>\<^verbatim>\<open>sep.join(xs)\<close>.\<close>

fun join :: "string \<Rightarrow> string list \<Rightarrow> string" where
  "join sep [] = []"
| "join sep [x] = x"
| "join sep (x # y # ys) = x @ sep @ join sep (y # ys)"

text \<open>\<^verbatim>\<open>str(n)\<close> for an integer: decimal digits, a minus sign when negative.\<close>

definition digit_char :: "nat \<Rightarrow> char" where
  "digit_char d = ''0123456789'' ! d"

fun str_nat :: "nat \<Rightarrow> string" where
  "str_nat n = (if n < 10 then [digit_char n] else str_nat (n div 10) @ [digit_char (n mod 10)])"

declare str_nat.simps [simp del]

definition str_int :: "int \<Rightarrow> string" where
  "str_int i = (if i < 0 then CHR ''-'' # str_nat (nat (- i)) else str_nat (nat i))"

definition str_bool :: "bool \<Rightarrow> string" where
  "str_bool b = (if b then ''True'' else ''False'')"

text \<open>
  \<^verbatim>\<open>int(s)\<close> on a string: surrounding whitespace is dropped, one sign is allowed, then
  decimal digits, where a single underscore may stand between two digits. Anything else
  raises \<^verbatim>\<open>ValueError\<close>. Only ASCII digits and ASCII whitespace are recognised here.
\<close>

definition digit_val :: "char \<Rightarrow> nat option" where
  "digit_val c = map_of (zip ''0123456789'' [0, 1, 2, 3, 4, 5, 6, 7, 8, 9]) c"

definition is_space :: "char \<Rightarrow> bool" where
  "is_space c \<longleftrightarrow> c \<in> set [CHR '' '', CHR 0x09, CHR 0x0A, CHR 0x0B, CHR 0x0C, CHR 0x0D,
                             CHR 0x1C, CHR 0x1D, CHR 0x1E, CHR 0x1F]"

definition strip :: "string \<Rightarrow> string" where
  "strip s = rev (dropWhile is_space (rev (dropWhile is_space s)))"

fun dec_digits :: "nat \<Rightarrow> string \<Rightarrow> nat option" where
  "dec_digits acc [] = Some acc"
| "dec_digits acc [c] =
     (case digit_val c of None \<Rightarrow> None | Some v \<Rightarrow> Some (10 * acc + v))"
| "dec_digits acc (c # d # ds) =
     (if c = CHR ''_''
      then (case digit_val d of None \<Rightarrow> None | Some v \<Rightarrow> dec_digits (10 * acc + v) ds)
      else (case digit_val c of None \<Rightarrow> None | Some v \<Rightarrow> dec_digits (10 * acc + v) (d # ds)))"

definition dec_literal :: "string \<Rightarrow> nat option" where
  "dec_literal s =
     (case s of
        [] \<Rightarrow> None
      | c # cs \<Rightarrow> (case digit_val c of None \<Rightarrow> None | Some v \<Rightarrow> dec_digits v cs))"

text \<open>A string of decimal digits only.\<close>

definition all_digits :: "string \<Rightarrow> bool" where
  "all_digits s \<longleftrightarrow> (\<forall>c \<in> set s. digit_val c \<noteq> None)"

text \<open>
  \<^verbatim>\<open>repr(s)\<close> of a string, as it appears in the message of the \<^verbatim>\<open>ValueError\<close>:
  single quotes unless the text holds a single and no double quote; backslash, the
  chosen quote, tab, newline and carriage return escaped; other control characters as
  \<^verbatim>\<open>\xNN\<close>; bytes above \<^verbatim>\<open>0x7F\<close> as they are.
\<close>

definition hex_char :: "nat \<Rightarrow> char" where
  "hex_char d = ''0123456789abcdef'' ! d"

definition repr_char :: "char \<Rightarrow> char \<Rightarrow> string" where
  "repr_char q c =
     (if c = q \<or> c = CHR 0x5C then [CHR 0x5C, c]
      else if c = CHR 0x09 then [CHR 0x5C, CHR ''t'']
      else if c = CHR 0x0A then [CHR 0x5C, CHR ''n'']
      else if c = CHR 0x0D then [CHR 0x5C, CHR ''r'']
      else if (of_char c :: nat) < 32 \<or> c = CHR 0x7F
        then [CHR 0x5C, CHR ''x'', hex_char ((of_char c :: nat) div 16),
              hex_char ((of_char c :: nat) mod 16)]
      else [c])"

definition py_repr :: "string \<Rightarrow> string" where
  "py_repr s =
     (let q = (if CHR 0x27 \<in> set s \<and> CHR 0x22 \<notin> set s then CHR 0x22 else CHR 0x27)
      in q # concat (map (repr_char q) s) @ [q])"

subsection \<open>Exceptions\<close>

text \<open>
  Every exception that can arise inside a method is a subclass of \<^verbatim>\<open>Exception\<close>.
  \<open>ValueError\<close> carries the text that \<^verbatim>\<open>int\<close> rejected, \<open>AttributeError\<close> the
  attribute looked up on \<^verbatim>\<open>None\<close>, \<open>TypeError\<close> its message, \<open>IntegrityError\<close> the
  message of the database for the constraint it refused (the first line of the text the
  library composes; the statement, parameters and link it appends are left out),
  \<open>OverflowError\<close> the message of the database driver for an integer it cannot bind,
  and \<open>StorageError\<close> the message of any other failure of the storage layer (no
  connection, no file, a locked file, the session factory never bound).
\<close>

datatype exn =
    ValueError string
  | AttributeError string
  | TypeError string
  | IntegrityError string
  | OverflowError string
  | StorageError string

text \<open>\<^verbatim>\<open>str(e)\<close>.\<close>

fun str_exn :: "exn \<Rightarrow> string" where
  "str_exn (ValueError s) = ''invalid literal for int() with base 10: '' @ take 200 (py_repr s)"
| "str_exn (AttributeError a) = [CHR 0x27] @ ''NoneType'' @ [CHR 0x27] @ '' object has no attribute ''
                                  @ [CHR 0x27] @ a @ [CHR 0x27]"
| "str_exn (TypeError m) = m"
| "str_exn (IntegrityError c) = ''(sqlite3.IntegrityError) '' @ c"
| "str_exn (OverflowError m) = m"
| "str_exn (StorageError m) = m"

definition py_int :: "string \<Rightarrow> exn + int" where
  "py_int s =
     (let t = strip s;
          r = (case t of
                 [] \<Rightarrow> None
               | c # cs \<Rightarrow>
                   if c = CHR ''-'' then map_option (\<lambda>n. - int n) (dec_literal cs)
                   else if c = CHR ''+'' then map_option int (dec_literal cs)
                   else map_option int (dec_literal t))
      in case r of None \<Rightarrow> Inl (ValueError s) | Some i \<Rightarrow> Inr i)"

text \<open>\<^verbatim>\<open>xs[:n]\<close>: the first \<open>n\<close> elements, or all but the last \<open>-n\<close> when \<open>n\<close> is negative.\<close>

definition slice_to :: "int \<Rightarrow> 'a list \<Rightarrow> 'a list" where
  "slice_to n xs = (if 0 \<le> n then take (nat n) xs else take (length xs - nat (- n)) xs)"

text \<open>
  \<^verbatim>\<open>sorted(xs, key=k, reverse=True)\<close>: descending by key, elements of equal key in
  their original order.
\<close>

definition sorted_reverse :: "('a \<Rightarrow> int) \<Rightarrow> 'a list \<Rightarrow> 'a list" where
  "sorted_reverse k xs = rev (sort_key k (rev xs))"

subsection \<open>The tables\<close>

datatype SenderType = USER | GPT

datatype SendType = TEXT | IMAGE | AUDIO

text \<open>The \<^verbatim>\<open>.name\<close> of an enum member.\<close>

fun SenderType_name :: "SenderType \<Rightarrow> string" where
  "SenderType_name USER = ''USER''"
| "SenderType_name GPT = ''GPT''"

fun SendType_name :: "SendType \<Rightarrow> string" where
  "SendType_name TEXT = ''TEXT''"
| "SendType_name IMAGE = ''IMAGE''"
| "SendType_name AUDIO = ''AUDIO''"

text \<open>A naive \<^verbatim>\<open>datetime\<close>, and \<^verbatim>\<open>str\<close> of it (ISO format with a space).\<close>

record datetime =
  year :: nat
  month :: nat
  day :: nat
  hour :: nat
  minute :: nat
  second :: nat
  microsecond :: nat

definition zero_pad :: "nat \<Rightarrow> string \<Rightarrow> string" where
  "zero_pad w s = replicate (w - length s) CHR ''0'' @ s"

definition str_datetime :: "datetime \<Rightarrow> string" where
  "str_datetime t =
     zero_pad 4 (str_nat (year t)) @ ''-'' @ zero_pad 2 (str_nat (month t)) @ ''-''
     @ zero_pad 2 (str_nat (day t)) @ '' '' @ zero_pad 2 (str_nat (hour t)) @ '':''
     @ zero_pad 2 (str_nat (minute t)) @ '':'' @ zero_pad 2 (str_nat (second t))
     @ (if microsecond t = 0 then [] else ''.'' @ zero_pad 6 (str_nat (microsecond t)))"

text \<open>
  The rows. \<open>dialogue_mask_id\<close> is the column \<^verbatim>\<open>Dialogue.mask_id\<close>, \<open>msg_id\<close> the
  column \<^verbatim>\<open>Message.id\<close> and \<open>message_dialogue_name\<close> the column
  \<^verbatim>\<open>Message.dialogue_name\<close>; a nullable foreign key is an \<^typ>\<open>'a option\<close>.
\<close>

record Mask =
  mask_id :: int
  mask_name :: string
  mask_describe :: string

record Dialogue =
  dialogue_name :: string
  dialogue_mask_id :: "int option"

record Message =
  msg_id :: int
  sender :: SenderType
  send_time :: datetime
  send_type :: SendType
  send_info :: string
  send_succeed :: bool
  message_dialogue_name :: "string option"

text \<open>The database file \<^verbatim>\<open>chat.db\<close>: each table is the list of its rows in rowid order.\<close>

record store =
  masks :: "Mask list"
  dialogues :: "Dialogue list"
  messages :: "Message list"

definition empty_store :: store where
  "empty_store = \<lparr>masks = [], dialogues = [], messages = []\<rparr>"

text \<open>
  An integer primary key is SQLite's rowid (the ORM declares it without the
  \<^verbatim>\<open>AUTOINCREMENT\<close> keyword): a new row gets 1 in an empty table and the largest key
  plus one otherwise.
\<close>

definition next_rowid :: "int list \<Rightarrow> int" where
  "next_rowid ids = (if ids = [] then 1 else Max (set ids) + 1)"

subsection \<open>Queries\<close>

text \<open>
  \<^verbatim>\<open>session.query(T)\<close> builds a query object; \<^verbatim>\<open>filter_by\<close> narrows it, and only
  \<^verbatim>\<open>first()\<close>, \<^verbatim>\<open>all()\<close> or \<^verbatim>\<open>get(key)\<close> read rows. The object is modelled by the rows
  it would yield; \<open>Query_first\<close> and \<open>Query_all\<close> say which rows come back once the
  statement has been executed (see \<open>execute\<close> below).
\<close>

datatype 'a Query = Query "'a list"

definition query_Mask :: "store \<Rightarrow> Mask Query" where
  "query_Mask s = Query (masks s)"

definition query_Dialogue :: "store \<Rightarrow> Dialogue Query" where
  "query_Dialogue s = Query (dialogues s)"

definition query_Message :: "store \<Rightarrow> Message Query" where
  "query_Message s = Query (messages s)"

fun filter_by :: "('a \<Rightarrow> bool) \<Rightarrow> 'a Query \<Rightarrow> 'a Query" where
  "filter_by p (Query rows) = Query (filter p rows)"

fun Query_first :: "'a Query \<Rightarrow> 'a option" where
  "Query_first (Query rows) = (case rows of [] \<Rightarrow> None | r # _ \<Rightarrow> Some r)"

fun Query_all :: "'a Query \<Rightarrow> 'a list" where
  "Query_all (Query rows) = rows"

text \<open>
  The truth value of a query object in a condition. Python calls \<^verbatim>\<open>__bool__\<close>, then
  \<^verbatim>\<open>__len__\<close>, and takes an object that defines neither to be true. The query class
  defines neither, so the test never reads a row.
\<close>

definition Query_bool :: "'a Query \<Rightarrow> bool" where
  "Query_bool q = True"

text \<open>The relationship \<^verbatim>\<open>dialogue.messages\<close>: the message rows that name the dialogue.\<close>

definition Dialogue_messages :: "store \<Rightarrow> Dialogue \<Rightarrow> Message list" where
  "Dialogue_messages s d =
     Query_all (filter_by (\<lambda>m. message_dialogue_name m = Some (dialogue_name d)) (query_Message s))"

subsection \<open>Sessions, printing and logging\<close>

text \<open>
  A method prints to standard output and writes to the logger \<^verbatim>\<open>app_logger\<close>; both are
  recorded, in order. A call yields the returned value, the store after it and what it
  wrote, or (\<open>Inl\<close>) the exception that left it.
\<close>

datatype event = Log string | Print string

type_synonym 'r outcome = "'r \<times> store \<times> event list"

text \<open>
  The body of a \<^verbatim>\<open>try\<close> block either completes, or ends with an exception after having
  written some lines (\<open>Inl\<close>).
\<close>

type_synonym 'r attempt = "(exn \<times> event list) + 'r outcome"

text \<open>
  What the storage layer does wrong during one call, if anything (\<open>None\<close>: nothing),
  and where the exception arises:
  \<^item> \<open>At_open\<close>: the call \<^verbatim>\<open>self.DB_session()\<close> itself raises (the attribute was never
    bound because \<^verbatim>\<open>__init__\<close> failed);
  \<^item> \<open>At_access\<close>: the database cannot be reached (no file, no connection). A session
    connects only when a statement is executed, so the exception arises at the first
    statement sent to the database, and code that runs before it, or a branch that sends
    none, does not notice;
  \<^item> \<open>At_commit\<close>: reading works and writing does not (a locked or read-only file, a
    full disk), so the exception arises at \<^verbatim>\<open>session.commit()\<close>.
\<close>

datatype stage = At_open | At_access | At_commit

type_synonym fault = "(stage \<times> exn) option"

fun open_failure :: "fault \<Rightarrow> exn option" where
  "open_failure (Some (At_open, e)) = Some e"
| "open_failure _ = None"

fun access_failure :: "fault \<Rightarrow> exn option" where
  "access_failure (Some (At_access, e)) = Some e"
| "access_failure _ = None"

fun commit_failure :: "fault \<Rightarrow> exn option" where
  "commit_failure (Some (At_access, e)) = Some e"
| "commit_failure (Some (At_commit, e)) = Some e"
| "commit_failure _ = None"

text \<open>\<^verbatim>\<open>with self.DB_session() as session: ...\<close>: the session is made, then the block runs.\<close>

definition DB_session :: "fault \<Rightarrow> 'r attempt \<Rightarrow> 'r attempt" where
  "DB_session flt body = (case open_failure flt of Some e \<Rightarrow> Inl (e, []) | None \<Rightarrow> body)"

text \<open>
  A statement is sent to the database (\<^verbatim>\<open>first()\<close>, \<^verbatim>\<open>all()\<close>, \<^verbatim>\<open>get(key)\<close>, the load of
  a relationship): \<open>rows\<close> is what comes back when the database answers.
\<close>

definition execute :: "fault \<Rightarrow> 'a \<Rightarrow> exn + 'a" where
  "execute flt rows = (case access_failure flt of Some e \<Rightarrow> Inl e | None \<Rightarrow> Inr rows)"

text \<open>
  \<^verbatim>\<open>session.commit()\<close>: the pending rows are written; \<open>None\<close> when the database takes
  the transaction. A constraint that the database refuses is raised by the method
  bodies themselves, after this check.
\<close>

definition commit :: "fault \<Rightarrow> exn option" where
  "commit flt = commit_failure flt"

text \<open>
  \<^verbatim>\<open>session.query(Message).get(key)\<close>: the row with that primary key, if any. The key
  is bound as a parameter of the statement, and the driver binds an integer only if it
  fits SQLite's 64-bit \<^verbatim>\<open>INTEGER\<close>; for any other it raises \<^verbatim>\<open>OverflowError\<close>.
\<close>

definition Query_get :: "fault \<Rightarrow> int \<Rightarrow> Message Query \<Rightarrow> exn + Message option" where
  "Query_get flt key q =
     (case execute flt () of
        Inl e \<Rightarrow> Inl e
      | Inr _ \<Rightarrow>
          if - (2 ^ 63) \<le> key \<and> key < 2 ^ 63
          then Inr (Query_first (filter_by (\<lambda>m. msg_id m = key) q))
          else Inl (OverflowError ''Python int too large to convert to SQLite INTEGER''))"

subsection \<open>The methods of \<^verbatim>\<open>ChatSql\<close>\<close>

text \<open>
  Each method is a \<^verbatim>\<open>try\<close> block around one session block and an \<^verbatim>\<open>except Exception\<close>
  handler. The function named \<open>_try\<close> is the body of the \<^verbatim>\<open>try\<close>, the function
  named after the method adds the handler. A method without a \<^verbatim>\<open>return\<close> value
  returns \<^verbatim>\<open>None\<close>, here \<open>()\<close>. When the handler runs, nothing was committed, so the
  store is the one the call started with.
\<close>

definition add_mask_try :: "fault \<Rightarrow> store \<Rightarrow> string \<Rightarrow> string \<Rightarrow> unit attempt" where
  "add_mask_try flt s mask_name' mask_describe' =
     DB_session flt
       (let new_mask = \<lparr>mask_id = next_rowid (map mask_id (masks s)),
                        mask_name = mask_name', mask_describe = mask_describe'\<rparr>
        in case commit flt of
             Some e \<Rightarrow> Inl (e, [])
           | None \<Rightarrow>
               if mask_name' \<in> set (map mask_name (masks s))
               then Inl (IntegrityError ''UNIQUE constraint failed: mask.mask_name'', [])
               else Inr ((), s\<lparr>masks := masks s @ [new_mask]\<rparr>, []))"

definition add_mask :: "fault \<Rightarrow> store \<Rightarrow> string \<Rightarrow> string \<Rightarrow> exn + unit outcome" where
  "add_mask flt s mask_name' mask_describe' =
     (case add_mask_try flt s mask_name' mask_describe' of
        Inl (e, out) \<Rightarrow> Inr ((), s, out @ [Log (str_exn e)])
      | Inr r \<Rightarrow> Inr r)"

text \<open>
  \<^verbatim>\<open>__init__\<close>: \<open>flt_engine\<close> is the failure, if any, of creating the engine and the
  tables; \<open>flt\<close> is what goes wrong during the nested \<^verbatim>\<open>add_mask("default")\<close>.
\<close>

definition ChatSql_init_try :: "exn option \<Rightarrow> fault \<Rightarrow> store \<Rightarrow> unit attempt" where
  "ChatSql_init_try flt_engine flt s =
     (case flt_engine of
        Some e \<Rightarrow> Inl (e, [])
      | None \<Rightarrow>
          (case add_mask flt s ''default'' [] of
             Inl e \<Rightarrow> Inl (e, [])
           | Inr r \<Rightarrow> Inr r))"

definition ChatSql_init :: "exn option \<Rightarrow> fault \<Rightarrow> store \<Rightarrow> exn + unit outcome" where
  "ChatSql_init flt_engine flt s =
     (case ChatSql_init_try flt_engine flt s of
        Inl (e, out) \<Rightarrow> Inr ((), s, out @ [Log (str_exn e)])
      | Inr r \<Rightarrow> Inr r)"

definition create_dialogue_try :: "fault \<Rightarrow> store \<Rightarrow> string \<Rightarrow> string \<Rightarrow> unit attempt" where
  "create_dialogue_try flt s name mask_name' =
     DB_session flt
       (case execute flt (Query_first (filter_by (\<lambda>m. mask_name m = mask_name') (query_Mask s))) of
          Inl e \<Rightarrow> Inl (e, [])
        | Inr mask0 \<Rightarrow>
            (case (if mask_name' = [] \<or> mask0 = None
                   then execute flt (Query_first (filter_by (\<lambda>m. mask_name m = ''default'')
                                                            (query_Mask s)))
                   else Inr mask0) of
               Inl e \<Rightarrow> Inl (e, [])
             | Inr mask1 \<Rightarrow>
                 if Query_bool (filter_by (\<lambda>d. dialogue_name d = name) (query_Dialogue s))
                 then Inr ((), s, [])
                 else (case mask1 of
                         None \<Rightarrow> Inl (AttributeError ''mask_id'', [])
                       | Some m \<Rightarrow>
                           let dialogue = \<lparr>dialogue_name = name,
                                           dialogue_mask_id = Some (mask_id m)\<rparr>
                           in case commit flt of
                                Some e \<Rightarrow> Inl (e, [])
                              | None \<Rightarrow>
                                  if name \<in> set (map dialogue_name (dialogues s))
                                  then Inl (IntegrityError
                                         ''UNIQUE constraint failed: dialogue.dialogue_name'', [])
                                  else Inr ((), s\<lparr>dialogues := dialogues s @ [dialogue]\<rparr>, []))))"

definition create_dialogue :: "fault \<Rightarrow> store \<Rightarrow> string \<Rightarrow> string \<Rightarrow> exn + unit outcome" where
  "create_dialogue flt s name mask_name' =
     (case create_dialogue_try flt s name mask_name' of
        Inl (e, out) \<Rightarrow> Inr ((), s, out @ [Log (str_exn e), Print (str_exn e)])
      | Inr r \<Rightarrow> Inr r)"

text \<open>
  The default of \<^verbatim>\<open>send_time\<close> is the expression \<^verbatim>\<open>datetime.now()\<close> in the header of
  the \<^verbatim>\<open>def\<close>. Python evaluates a default once, when the \<^verbatim>\<open>def\<close> statement runs
  (here: when the module is loaded), and every later call that omits the argument gets
  that value. \<open>now_at_def\<close> is the clock at that moment; \<open>send_time' = None\<close> is a
  call without the argument.
\<close>

definition add_message_default :: "datetime \<Rightarrow> datetime" where
  "add_message_default now_at_def = now_at_def"

definition add_message_try ::
  "datetime \<Rightarrow> fault \<Rightarrow> store \<Rightarrow> string \<Rightarrow> SenderType \<Rightarrow> SendType \<Rightarrow> string \<Rightarrow> bool
     \<Rightarrow> datetime option \<Rightarrow> unit attempt" where
  "add_message_try now_at_def flt s dialogue_name' sender' send_type' send_info' send_succeed'
       send_time' =
     DB_session flt
       (case execute flt (Query_first (filter_by (\<lambda>d. dialogue_name d = dialogue_name')
                                                 (query_Dialogue s))) of
          Inl e \<Rightarrow> Inl (e, [])
        | Inr dialogue \<Rightarrow>
            (let out = (if dialogue = None
                        then [Print (''Dialogue with name '' @ dialogue_name' @ '' not found'')]
                        else []);
                 message = \<lparr>msg_id = next_rowid (map msg_id (messages s)),
                            sender = sender',
                            send_time = (case send_time' of
                                           None \<Rightarrow> add_message_default now_at_def
                                         | Some t \<Rightarrow> t),
                            send_type = send_type',
                            send_info = send_info',
                            send_succeed = send_succeed',
                            message_dialogue_name = map_option dialogue_name dialogue\<rparr>
             in case commit flt of
                  Some e \<Rightarrow> Inl (e, out)
                | None \<Rightarrow> Inr ((), s\<lparr>messages := messages s @ [message]\<rparr>, out)))"

definition add_message ::
  "datetime \<Rightarrow> fault \<Rightarrow> store \<Rightarrow> string \<Rightarrow> SenderType \<Rightarrow> SendType \<Rightarrow> string \<Rightarrow> bool
     \<Rightarrow> datetime option \<Rightarrow> exn + unit outcome" where
  "add_message now_at_def flt s dialogue_name' sender' send_type' send_info' send_succeed'
       send_time' =
     (case add_message_try now_at_def flt s dialogue_name' sender' send_type' send_info'
             send_succeed' send_time' of
        Inl (e, out) \<Rightarrow> Inr ((), s, out @ [Log (str_exn e)])
      | Inr r \<Rightarrow> Inr r)"

definition update_message_try :: "fault \<Rightarrow> store \<Rightarrow> int \<Rightarrow> string \<Rightarrow> unit attempt" where
  "update_message_try flt s message_id new_send_info =
     DB_session flt
       (case Query_get flt message_id (query_Message s) of
          Inl e \<Rightarrow> Inl (e, [])
        | Inr (Some message) \<Rightarrow>
            (case commit flt of
               Some e \<Rightarrow> Inl (e, [])
             | None \<Rightarrow>
                 Inr ((), s\<lparr>messages := map (\<lambda>m. if msg_id m = msg_id message
                                                  then m\<lparr>send_info := new_send_info\<rparr> else m)
                                            (messages s)\<rparr>, []))
        | Inr None \<Rightarrow>
            Inr ((), s, [Print (''Message with id '' @ str_int message_id @ '' not found'')]))"

definition update_message :: "fault \<Rightarrow> store \<Rightarrow> int \<Rightarrow> string \<Rightarrow> exn + unit outcome" where
  "update_message flt s message_id new_send_info =
     (case update_message_try flt s message_id new_send_info of
        Inl (e, out) \<Rightarrow> Inr ((), s, out @ [Log (str_exn e)])
      | Inr r \<Rightarrow> Inr r)"

definition delete_message_try :: "fault \<Rightarrow> store \<Rightarrow> int \<Rightarrow> unit attempt" where
  "delete_message_try flt s message_id =
     DB_session flt
       (case Query_get flt message_id (query_Message s) of
          Inl e \<Rightarrow> Inl (e, [])
        | Inr (Some message) \<Rightarrow>
            (case commit flt of
               Some e \<Rightarrow> Inl (e, [])
             | None \<Rightarrow>
                 Inr ((), s\<lparr>messages := filter (\<lambda>m. msg_id m \<noteq> msg_id message) (messages s)\<rparr>,
                      []))
        | Inr None \<Rightarrow>
            Inr ((), s, [Print (''Message with id '' @ str_int message_id @ '' not found'')]))"

definition delete_message :: "fault \<Rightarrow> store \<Rightarrow> int \<Rightarrow> exn + unit outcome" where
  "delete_message flt s message_id =
     (case delete_message_try flt s message_id of
        Inl (e, out) \<Rightarrow> Inr ((), s, out @ [Log (str_exn e)])
      | Inr r \<Rightarrow> Inr r)"

definition get_dialogue_try :: "fault \<Rightarrow> store \<Rightarrow> string \<Rightarrow> Dialogue option attempt" where
  "get_dialogue_try flt s dialogue_name' =
     DB_session flt
       (case execute flt (Query_first (filter_by (\<lambda>d. dialogue_name d = dialogue_name')
                                                 (query_Dialogue s))) of
          Inl e \<Rightarrow> Inl (e, [])
        | Inr dialogue \<Rightarrow> Inr (dialogue, s, []))"

definition get_dialogue :: "fault \<Rightarrow> store \<Rightarrow> string \<Rightarrow> exn + Dialogue option outcome" where
  "get_dialogue flt s dialogue_name' =
     (case get_dialogue_try flt s dialogue_name' of
        Inl (e, out) \<Rightarrow> Inr (None, s, out @ [Log (str_exn e)])
      | Inr r \<Rightarrow> Inr r)"

text \<open>\<^verbatim>\<open>get_messages\<close> returns a list, or \<^verbatim>\<open>None\<close> when the handler ran.\<close>

definition get_messages_try :: "fault \<Rightarrow> store \<Rightarrow> string \<Rightarrow> Message list option attempt" where
  "get_messages_try flt s dialogue_name' =
     DB_session flt
       (case execute flt (Query_first (filter_by (\<lambda>d. dialogue_name d = dialogue_name')
                                                 (query_Dialogue s))) of
          Inl e \<Rightarrow> Inl (e, [])
        | Inr (Some dialogue) \<Rightarrow>
            (case execute flt (Dialogue_messages s dialogue) of
               Inl e \<Rightarrow> Inl (e, [])
             | Inr messages' \<Rightarrow> Inr (Some messages', s, []))
        | Inr None \<Rightarrow> Inr (Some [], s, []))"

definition get_messages :: "fault \<Rightarrow> store \<Rightarrow> string \<Rightarrow> exn + Message list option outcome" where
  "get_messages flt s dialogue_name' =
     (case get_messages_try flt s dialogue_name' of
        Inl (e, out) \<Rightarrow> Inr (None, s, out @ [Log (str_exn e)])
      | Inr r \<Rightarrow> Inr r)"

definition get_mask_try :: "fault \<Rightarrow> store \<Rightarrow> string \<Rightarrow> Mask option attempt" where
  "get_mask_try flt s mask_name' =
     DB_session flt
       (case execute flt (Query_first (filter_by (\<lambda>m. mask_name m = mask_name') (query_Mask s))) of
          Inl e \<Rightarrow> Inl (e, [])
        | Inr mask0 \<Rightarrow> Inr (mask0, s, []))"

definition get_mask :: "fault \<Rightarrow> store \<Rightarrow> string \<Rightarrow> exn + Mask option outcome" where
  "get_mask flt s mask_name' =
     (case get_mask_try flt s mask_name' of
        Inl (e, out) \<Rightarrow> Inr (None, s, out @ [Log (str_exn e)])
      | Inr r \<Rightarrow> Inr r)"

text \<open>
  \<^verbatim>\<open>delete_mask\<close> opens its session and then calls \<^verbatim>\<open>self.get_mask\<close>, which opens a
  session of its own: \<open>flt\<close> is what goes wrong in the outer block, \<open>flt_get\<close> in the
  nested call.
\<close>

definition delete_mask_try :: "fault \<Rightarrow> fault \<Rightarrow> store \<Rightarrow> string \<Rightarrow> unit attempt" where
  "delete_mask_try flt flt_get s mask_name' =
     DB_session flt
       (case get_mask flt_get s mask_name' of
          Inl e \<Rightarrow> Inl (e, [])
        | Inr (mask0, s1, out) \<Rightarrow>
            (case mask0 of
               Some m \<Rightarrow>
                 (case commit flt of
                    Some e \<Rightarrow> Inl (e, out)
                  | None \<Rightarrow>
                      Inr ((), s1\<lparr>masks := filter (\<lambda>x. mask_id x \<noteq> mask_id m) (masks s1)\<rparr>, out))
             | None \<Rightarrow>
                 Inr ((), s1, out @ [Print (''Mask with name '' @ mask_name' @ '' not found'')])))"

definition delete_mask :: "fault \<Rightarrow> fault \<Rightarrow> store \<Rightarrow> string \<Rightarrow> exn + unit outcome" where
  "delete_mask flt flt_get s mask_name' =
     (case delete_mask_try flt flt_get s mask_name' of
        Inl (e, out) \<Rightarrow> Inr ((), s, out @ [Log (str_exn e)])
      | Inr r \<Rightarrow> Inr r)"

subsection \<open>The report formatter \<^verbatim>\<open>__format__\<close>\<close>

text \<open>The labels of the report lines, as UTF-8 bytes.\<close>

definition lbl_dialogue_name :: string where
  "lbl_dialogue_name = [CHR 0xE5, CHR 0xAF, CHR 0xB9, CHR 0xE8, CHR 0xAF, CHR 0x9D, CHR 0xE5,
     CHR 0x90, CHR 0x8D] @ '': ''"

definition lbl_mask_id :: string where
  "lbl_mask_id = [CHR 0xE9, CHR 0x9D, CHR 0xA2, CHR 0xE5, CHR 0x85, CHR 0xB7] @ ''id: ''"

definition lbl_mask_name :: string where
  "lbl_mask_name = [CHR 0xE9, CHR 0x9D, CHR 0xA2, CHR 0xE5, CHR 0x85, CHR 0xB7, CHR 0xE5,
     CHR 0x90, CHR 0x8D] @ '': ''"

definition lbl_mask_describe :: string where
  "lbl_mask_describe = [CHR 0xE9, CHR 0x9D, CHR 0xA2, CHR 0xE5, CHR 0x85, CHR 0xB7, CHR 0xE6,
     CHR 0x8F, CHR 0x8F, CHR 0xE8, CHR 0xBF, CHR 0xB0] @ '': ''"

definition lbl_msg_id :: string where
  "lbl_msg_id = [CHR 0xE4, CHR 0xBF, CHR 0xA1, CHR 0xE6, CHR 0x81, CHR 0xAF] @ ''id: ''"

definition lbl_sender :: string where
  "lbl_sender = [CHR 0xE5, CHR 0x8F, CHR 0x91, CHR 0xE9, CHR 0x80, CHR 0x81, CHR 0xE8, CHR 0x80,
     CHR 0x85] @ '': ''"

definition lbl_send_time :: string where
  "lbl_send_time = [CHR 0xE5, CHR 0x8F, CHR 0x91, CHR 0xE9, CHR 0x80, CHR 0x81, CHR 0xE6,
     CHR 0x97, CHR 0xB6, CHR 0xE9, CHR 0x97, CHR 0xB4] @ '': ''"

definition lbl_send_type :: string where
  "lbl_send_type = [CHR 0xE5, CHR 0x8F, CHR 0x91, CHR 0xE9, CHR 0x80, CHR 0x81, CHR 0xE7,
     CHR 0xB1, CHR 0xBB, CHR 0xE5, CHR 0x9E, CHR 0x8B] @ '': ''"

definition lbl_send_info :: string where
  "lbl_send_info = [CHR 0xE5, CHR 0x8F, CHR 0x91, CHR 0xE9, CHR 0x80, CHR 0x81, CHR 0xE5,
     CHR 0x86, CHR 0x85, CHR 0xE5, CHR 0xAE, CHR 0xB9] @ '': ''"

definition lbl_send_succeed :: string where
  "lbl_send_succeed = [CHR 0xE5, CHR 0x8F, CHR 0x91, CHR 0xE9, CHR 0x80, CHR 0x81, CHR 0xE6,
     CHR 0x98, CHR 0xAF, CHR 0xE5, CHR 0x90, CHR 0xA6, CHR 0xE6, CHR 0x88, CHR 0x90, CHR 0xE5,
     CHR 0x8A, CHR 0x9F] @ '': ''"

definition lbl_not_found :: string where
  "lbl_not_found = [CHR 0xE6, CHR 0x9C, CHR 0xAA, CHR 0xE6, CHR 0x89, CHR 0xBE, CHR 0xE5,
     CHR 0x88, CHR 0xB0] @ '' ''"

definition lbl_this_dialogue :: string where
  "lbl_this_dialogue = '' '' @ [CHR 0xE8, CHR 0xBF, CHR 0x99, CHR 0xE4, CHR 0xB8, CHR 0xAA,
     CHR 0xE5, CHR 0xAF, CHR 0xB9, CHR 0xE8, CHR 0xAF, CHR 0x9D]"

text \<open>The three f-strings that make one line each.\<close>

definition line_dialogue :: "Dialogue \<Rightarrow> string" where
  "line_dialogue dialogue =
     lbl_dialogue_name @ dialogue_name dialogue @ '', '' @ lbl_mask_id
     @ (case dialogue_mask_id dialogue of None \<Rightarrow> ''None'' | Some i \<Rightarrow> str_int i)"

definition line_mask :: "Mask \<Rightarrow> string" where
  "line_mask m =
     lbl_mask_id @ str_int (mask_id m) @ '', '' @ lbl_mask_name @ mask_name m
     @ '', '' @ lbl_mask_describe @ mask_describe m"

definition line_message :: "Message \<Rightarrow> string" where
  "line_message message =
     lbl_msg_id @ str_int (msg_id message)
     @ '', '' @ lbl_sender @ SenderType_name (sender message)
     @ '', '' @ lbl_send_time @ str_datetime (send_time message)
     @ '', '' @ lbl_send_type @ SendType_name (send_type message)
     @ '', '' @ lbl_send_info @ send_info message
     @ '', '' @ lbl_send_succeed @ str_bool (send_succeed message)"

definition newline :: string where
  "newline = [CHR 0x0A]"

text \<open>
  \<^verbatim>\<open>__format__\<close> returns a string, or \<^verbatim>\<open>None\<close> where no branch returns. The body of
  its \<^verbatim>\<open>try\<close>:
\<close>

definition ChatSql_format_try :: "fault \<Rightarrow> store \<Rightarrow> string \<Rightarrow> string option attempt" where
  "ChatSql_format_try flt s format_spec =
     DB_session flt
       (if format_spec = ''dialogues'' then
          (case execute flt (Query_all (query_Dialogue s)) of
             Inl e \<Rightarrow> Inl (e, [])
           | Inr dialogues' \<Rightarrow> Inr (Some (join newline (map line_dialogue dialogues')), s, []))
        else if format_spec = ''masks'' then
          (case execute flt (Query_all (query_Mask s)) of
             Inl e \<Rightarrow> Inl (e, [])
           | Inr masks' \<Rightarrow> Inr (Some (join newline (map line_mask masks')), s, []))
        else if py_in ''messages'' format_spec then
          (let target_format = split_on CHR '' '' format_spec
           in if length target_format < 2 then Inr (Some ''Miss parameters'', s, [])
              else
                (case (if length target_format \<ge> 2 then py_int (last target_format)
                       else Inr 5) of
                   Inl e \<Rightarrow> Inl (e, [])
                 | Inr update_num \<Rightarrow>
                     (let dialogue_name' = target_format ! 1
                      in case execute flt
                                (Query_first (filter_by (\<lambda>d. dialogue_name d = dialogue_name')
                                                        (query_Dialogue s))) of
                           Inl e \<Rightarrow> Inl (e, [])
                         | Inr (Some d) \<Rightarrow>
                             (case execute flt (Dialogue_messages s d) of
                                Inl e \<Rightarrow> Inl (e, [])
                              | Inr messages' \<Rightarrow>
                                  (let sorted_messages = sorted_reverse msg_id messages';
                                       print_messages = slice_to update_num sorted_messages
                                   in Inr (Some (join newline (map line_message print_messages)),
                                           s, [])))
                         | Inr None \<Rightarrow>
                             Inr (Some (lbl_not_found @ dialogue_name' @ lbl_this_dialogue), s, []))))
        else Inr (None, s, [Log ''Unknown format specifier'']))"

text \<open>The handler logs the exception and returns its text.\<close>

definition ChatSql_format :: "fault \<Rightarrow> store \<Rightarrow> string \<Rightarrow> exn + string option outcome" where
  "ChatSql_format flt s format_spec =
     (case ChatSql_format_try flt s format_spec of
        Inl (e, out) \<Rightarrow> Inr (Some (str_exn e), s, out @ [Log (str_exn e)])
      | Inr r \<Rightarrow> Inr r)"

text \<open>
  The built-in \<^verbatim>\<open>format(sql, spec)\<close>, through which the module's own main block reads
  the reports: it calls \<^verbatim>\<open>__format__\<close> and raises \<^verbatim>\<open>TypeError\<close> unless the result is a
  string.
\<close>

definition py_format :: "fault \<Rightarrow> store \<Rightarrow> string \<Rightarrow> exn + string outcome" where
  "py_format flt s format_spec =
     (case ChatSql_format flt s format_spec of
        Inl e \<Rightarrow> Inl e
      | Inr (None, s1, out) \<Rightarrow> Inl (TypeError ''__format__ must return a str, not NoneType'')
      | Inr (Some text, s1, out) \<Rightarrow> Inr (text, s1, out))"

subsection \<open>Sequences of calls\<close>

text \<open>
  One call of a method with its arguments and the storage failures it meets; \<open>exec\<close>
  gives the store after the call, \<open>run\<close> the store after a sequence of calls. The
  failures are chosen freely for each call, so the sequences cover every object of the
  class and every process that opens the file.
\<close>

datatype call =
    Call_init "exn option" fault
  | Call_add_mask fault string string
  | Call_get_mask fault string
  | Call_delete_mask fault fault string
  | Call_create_dialogue fault string string
  | Call_get_dialogue fault string
  | Call_add_message fault string SenderType SendType string bool "datetime option"
  | Call_update_message fault int string
  | Call_delete_message fault int
  | Call_get_messages fault string
  | Call_format fault string

fun store_after :: "store \<Rightarrow> exn + 'r outcome \<Rightarrow> store" where
  "store_after s (Inl e) = s"
| "store_after s (Inr (r, s1, out)) = s1"

fun exec :: "datetime \<Rightarrow> store \<Rightarrow> call \<Rightarrow> store" where
  "exec t0 s (Call_init fe f) = store_after s (ChatSql_init fe f s)"
| "exec t0 s (Call_add_mask f n d) = store_after s (add_mask f s n d)"
| "exec t0 s (Call_get_mask f n) = store_after s (get_mask f s n)"
| "exec t0 s (Call_delete_mask f fg n) = store_after s (delete_mask f fg s n)"
| "exec t0 s (Call_create_dialogue f n m) = store_after s (create_dialogue f s n m)"
| "exec t0 s (Call_get_dialogue f n) = store_after s (get_dialogue f s n)"
| "exec t0 s (Call_add_message f n sd ty info ok t) =
     store_after s (add_message t0 f s n sd ty info ok t)"
| "exec t0 s (Call_update_message f i info) = store_after s (update_message f s i info)"
| "exec t0 s (Call_delete_message f i) = store_after s (delete_message f s i)"
| "exec t0 s (Call_get_messages f n) = store_after s (get_messages f s n)"
| "exec t0 s (Call_format f spec) = store_after s (ChatSql_format f s spec)"

fun run :: "datetime \<Rightarrow> store \<Rightarrow> call list \<Rightarrow> store" where
  "run t0 s [] = s"
| "run t0 s (c # cs) = run t0 (exec t0 s c) cs"

subsection \<open>Invariants of the store\<close>

text \<open>The message table is listed in rowid order: its keys increase strictly.\<close>

definition rowid_order :: "store \<Rightarrow> bool" where
  "rowid_order s \<longleftrightarrow> sorted_wrt (<) (map msg_id (messages s))"

text \<open>The uniqueness constraint on \<^verbatim>\<open>mask.mask_name\<close>.\<close>

definition mask_names_unique :: "store \<Rightarrow> bool" where
  "mask_names_unique s \<longleftrightarrow> distinct (map mask_name (masks s))"

text \<open>A call returned to its caller: no exception left it.\<close>

definition returns :: "exn + 'a \<Rightarrow> bool" where
  "returns x = (case x of Inl e \<Rightarrow> False | Inr r \<Rightarrow> True)"

subsection \<open>Example stores\<close>

definition t_load :: datetime where
  "t_load = \<lparr>year = 2024, month = 6, day = 29, hour = 12, minute = 0, second = 0,
              microsecond = 0\<rparr>"

definition t_later :: datetime where
  "t_later = \<lparr>year = 2024, month = 6, day = 29, hour = 12, minute = 30, second = 5,
               microsecond = 250000\<rparr>"

definition default_mask :: Mask where
  "default_mask = \<lparr>mask_id = 1, mask_name = ''default'', mask_describe = []\<rparr>"

text \<open>The store after the first \<^verbatim>\<open>ChatSql()\<close> on a new file.\<close>

definition store_default :: store where
  "store_default = \<lparr>masks = [default_mask], dialogues = [], messages = []\<rparr>"

text \<open>The \<open>i\<close>-th message of the module's main block: \<^verbatim>\<open>str(i - 1)\<close> sent by the user.\<close>

definition user_text :: "string \<Rightarrow> nat \<Rightarrow> Message" where
  "user_text D i = \<lparr>msg_id = int i, sender = USER, send_time = t_load, send_type = TEXT,
                     send_info = str_nat (i - 1), send_succeed = True,
                     message_dialogue_name = Some D\<rparr>"

text \<open>A dialogue \<open>D\<close> bound to the default mask, holding the messages 1 to \<open>n\<close>.\<close>

definition store_with :: "string \<Rightarrow> nat \<Rightarrow> store" where
  "store_with D n = \<lparr>masks = [default_mask],
                      dialogues = [\<lparr>dialogue_name = D, dialogue_mask_id = Some 1\<rparr>],
                      messages = map (user_text D) [1..<Suc n]\<rparr>"

definition db_unavailable :: exn where
  "db_unavailable = StorageError ''(sqlite3.OperationalError) unable to open database file''"

definition db_locked :: exn where
  "db_locked = StorageError ''(sqlite3.OperationalError) database is locked''"

definition session_unbound :: exn where
  "session_unbound = StorageError
     ([CHR 0x27] @ ''ChatSql'' @ [CHR 0x27] @ '' object has no attribute ''
      @ [CHR 0x27] @ ''DB_session'' @ [CHR 0x27])"

section \<open>Properties\<close>

subsection \<open>Sessions and queries\<close>

lemma no_fault [simp]:
  "DB_session None body = body"
  "execute None rows = Inr rows"
  "commit None = None"
  by (simp_all add: DB_session_def execute_def commit_def)

lemma fault_cases:
  obtains "f = None" | e where "f = Some (At_open, e)" | e where "f = Some (At_access, e)"
    | e where "f = Some (At_commit, e)"
proof (cases f)
  case None
  then show ?thesis using that by simp
next
  case (Some p)
  then show ?thesis using that by (cases p; cases "fst p") auto
qed

lemmas fault_defs = DB_session_def execute_def commit_def

lemma first_filter_find [simp]:
  "(case filter p rows of [] \<Rightarrow> None | r # x \<Rightarrow> Some r) = find p rows"
  by (induction rows) auto

lemma find_Some_holds: "find p rows = Some r \<Longrightarrow> r \<in> set rows \<and> p r"
  by (induction rows) (auto split: if_splits)

lemma Query_first_dialogue_None:
  "D \<notin> set (map dialogue_name (dialogues s)) \<Longrightarrow>
   Query_first (filter_by (\<lambda>d. dialogue_name d = D) (query_Dialogue s)) = None"
  by (auto simp: query_Dialogue_def find_None_iff)

lemma Query_first_dialogue_Some:
  assumes "D \<in> set (map dialogue_name (dialogues s))"
  shows "\<exists>d. Query_first (filter_by (\<lambda>d. dialogue_name d = D) (query_Dialogue s)) = Some d
       \<and> dialogue_name d = D"
proof -
  from assms have "find (\<lambda>d. dialogue_name d = D) (dialogues s) \<noteq> None"
    by (auto simp: find_None_iff)
  then obtain d where d: "find (\<lambda>d. dialogue_name d = D) (dialogues s) = Some d"
    by blast
  then have "dialogue_name d = D"
    using find_Some_holds [of "\<lambda>d. dialogue_name d = D" "dialogues s" d] by simp
  with d show ?thesis by (simp add: query_Dialogue_def)
qed

lemma Dialogue_messages_eq:
  "Dialogue_messages s d = filter (\<lambda>m. message_dialogue_name m = Some (dialogue_name d)) (messages s)"
  by (simp add: Dialogue_messages_def query_Message_def)

lemma returns_Inr [simp]: "returns (Inr r)" "\<not> returns (Inl e)"
  by (simp_all add: returns_def)

lemma returns_handler [simp]:
  "returns (case x of Inl (e, out) \<Rightarrow> Inr (h e out) | Inr r \<Rightarrow> Inr r)"
  by (cases x) (simp_all split: prod.splits)

subsection \<open>What each call does to the store\<close>

text \<open>
  \<^verbatim>\<open>create_dialogue\<close> returns at its test of the query object, whatever the arguments.
\<close>

lemma create_dialogue_no_change: "create_dialogue None s name m = Inr ((), s, [])"
  by (simp add: create_dialogue_def create_dialogue_try_def Query_bool_def Let_def)

lemma store_after_create_dialogue [simp]: "store_after s (create_dialogue f s n m) = s"
  by (cases f rule: fault_cases) (simp_all add: fault_defs Query_get_def create_dialogue_def create_dialogue_try_def Query_bool_def Let_def)

lemma store_after_get_mask [simp]: "store_after s (get_mask f s n) = s"
  by (cases f rule: fault_cases) (simp_all add: fault_defs Query_get_def get_mask_def get_mask_try_def)

lemma store_after_get_dialogue [simp]: "store_after s (get_dialogue f s n) = s"
  by (cases f rule: fault_cases) (simp_all add: fault_defs Query_get_def get_dialogue_def get_dialogue_try_def)

lemma store_after_get_messages [simp]: "store_after s (get_messages f s n) = s"
  by (cases f rule: fault_cases) (simp_all add: fault_defs Query_get_def get_messages_def get_messages_try_def split: option.splits)

lemma store_after_format [simp]: "store_after s (ChatSql_format f s spec) = s"
  by (cases f rule: fault_cases)
     (simp_all add: fault_defs Query_get_def ChatSql_format_def ChatSql_format_try_def Let_def
        split: option.splits sum.splits)

lemma messages_after_add_mask [simp]:
  "messages (store_after s (add_mask f s n d)) = messages s"
  by (cases f rule: fault_cases) (simp_all add: fault_defs Query_get_def add_mask_def add_mask_try_def Let_def)

lemma messages_after_init [simp]:
  "messages (store_after s (ChatSql_init fe f s)) = messages s"
proof (cases fe)
  case None
  have "messages (store_after s (add_mask f s ''default'' [])) = messages s"
    by (rule messages_after_add_mask)
  with None show ?thesis
    by (cases "add_mask f s ''default'' []") (auto simp: ChatSql_init_def ChatSql_init_try_def)
next
  case (Some e)
  then show ?thesis by (simp add: ChatSql_init_def ChatSql_init_try_def)
qed

lemma messages_after_delete_mask [simp]:
  "messages (store_after s (delete_mask f fg s n)) = messages s"
  by (cases f rule: fault_cases; cases fg rule: fault_cases)
     (simp_all add: fault_defs Query_get_def delete_mask_def delete_mask_try_def get_mask_def get_mask_try_def split: option.splits)

lemma masks_after_add_message [simp]:
  "masks (store_after s (add_message t0 f s n sd ty info ok t)) = masks s"
  by (cases f rule: fault_cases) (simp_all add: fault_defs Query_get_def add_message_def add_message_try_def Let_def)

lemma masks_after_update_message [simp]:
  "masks (store_after s (update_message f s i info)) = masks s"
  by (cases f rule: fault_cases) (simp_all add: fault_defs Query_get_def update_message_def update_message_try_def split: option.splits)

lemma masks_after_delete_message [simp]:
  "masks (store_after s (delete_message f s i)) = masks s"
  by (cases f rule: fault_cases) (simp_all add: fault_defs Query_get_def delete_message_def delete_message_try_def split: option.splits)

lemma messages_store_after_add_message:
  "messages (store_after s (add_message t0 f s n sd ty info ok t)) = messages s \<or>
   (\<exists>m. messages (store_after s (add_message t0 f s n sd ty info ok t)) = messages s @ [m]
        \<and> msg_id m = next_rowid (map msg_id (messages s)))"
  by (cases f rule: fault_cases) (simp_all add: fault_defs Query_get_def add_message_def add_message_try_def Let_def)

lemma masks_after_add_mask:
  "masks (store_after s (add_mask f s n d)) = masks s \<or>
   (n \<notin> set (map mask_name (masks s)) \<and>
    (\<exists>m. masks (store_after s (add_mask f s n d)) = masks s @ [m] \<and> mask_name m = n))"
  by (cases f rule: fault_cases) (simp_all add: fault_defs Query_get_def add_mask_def add_mask_try_def Let_def)

subsection \<open>The invariants are kept\<close>

lemma next_rowid_greater:
  assumes "i \<in> set ids"
  shows "i < next_rowid ids"
proof -
  from assms have "i \<le> Max (set ids)" by simp
  moreover from assms have "ids \<noteq> []" by auto
  ultimately show ?thesis by (simp add: next_rowid_def)
qed

lemma sorted_wrt_snoc_rowid:
  "sorted_wrt (<) ids \<Longrightarrow> sorted_wrt (<) (ids @ [next_rowid ids])"
  by (simp add: sorted_wrt_append next_rowid_greater)

lemma msg_id_update_send_info [simp]:
  "msg_id \<circ> (\<lambda>m. if p m then m\<lparr>send_info := x\<rparr> else m) = msg_id"
  by (auto simp: fun_eq_iff)

lemma exec_rowid_order: "rowid_order s \<Longrightarrow> rowid_order (exec t0 s c)"
proof (cases c)
  case (Call_add_message f n sd ty info ok t)
  assume inv: "rowid_order s"
  from messages_store_after_add_message [of s t0 f n sd ty info ok t]
  show ?thesis using inv Call_add_message
    by (auto simp: rowid_order_def sorted_wrt_snoc_rowid)
next
  case (Call_update_message f i info)
  assume "rowid_order s"
  then show ?thesis using Call_update_message
    by (cases f rule: fault_cases) (auto simp: fault_defs Query_get_def rowid_order_def update_message_def update_message_try_def
        split: option.splits)
next
  case (Call_delete_message f i)
  assume "rowid_order s"
  then show ?thesis using Call_delete_message
    by (cases f rule: fault_cases) (auto simp: fault_defs Query_get_def rowid_order_def delete_message_def delete_message_try_def
        sorted_wrt_filter sorted_wrt_map split: option.splits)
qed (simp_all add: rowid_order_def)

text \<open>
  Every call keeps the message table in rowid order, so the order holds after any
  sequence of calls.
\<close>

lemma run_rowid_order: "rowid_order s \<Longrightarrow> rowid_order (run t0 s cs)"
  by (induction cs arbitrary: s) (simp_all add: exec_rowid_order)

lemma add_mask_unique:
  "mask_names_unique s \<Longrightarrow> mask_names_unique (store_after s (add_mask f s n d))"
  using masks_after_add_mask [of s f n d] by (auto simp: mask_names_unique_def)

lemma init_unique:
  "mask_names_unique s \<Longrightarrow> mask_names_unique (store_after s (ChatSql_init fe f s))"
proof (cases fe)
  case None
  assume "mask_names_unique s"
  then have "mask_names_unique (store_after s (add_mask f s ''default'' []))"
    by (rule add_mask_unique)
  with None show ?thesis
    by (cases "add_mask f s ''default'' []") (auto simp: ChatSql_init_def ChatSql_init_try_def)
next
  case (Some e)
  assume "mask_names_unique s"
  with Some show ?thesis by (simp add: ChatSql_init_def ChatSql_init_try_def)
qed

lemma delete_mask_unique:
  "mask_names_unique s \<Longrightarrow> mask_names_unique (store_after s (delete_mask f fg s n))"
  by (cases f rule: fault_cases; cases fg rule: fault_cases)
     (auto simp: fault_defs Query_get_def mask_names_unique_def delete_mask_def delete_mask_try_def get_mask_def get_mask_try_def
        distinct_map_filter split: option.splits)

lemma exec_unique: "mask_names_unique s \<Longrightarrow> mask_names_unique (exec t0 s c)"
proof (cases c)
  case (Call_init fe f)
  assume "mask_names_unique s"
  with Call_init show ?thesis by (simp add: init_unique)
next
  case (Call_add_mask f n d)
  assume "mask_names_unique s"
  with Call_add_mask show ?thesis by (simp add: add_mask_unique)
next
  case (Call_delete_mask f fg n)
  assume "mask_names_unique s"
  with Call_delete_mask show ?thesis by (simp add: delete_mask_unique)
qed (simp_all add: mask_names_unique_def)

text \<open>
  Every call keeps the mask names unique.
\<close>

lemma run_unique: "mask_names_unique s \<Longrightarrow> mask_names_unique (run t0 s cs)"
  by (induction cs arbitrary: s) (simp_all add: exec_unique)

lemma unique_key_once:
  "distinct (map f xs) \<Longrightarrow> a \<in> set (map f xs) \<Longrightarrow> length (filter (\<lambda>x. f x = a) xs) = 1"
proof (induction xs)
  case Nil
  then show ?case by simp
next
  case (Cons x xs)
  show ?case
  proof (cases "f x = a")
    case True
    with Cons.prems have "\<forall>y \<in> set xs. f y \<noteq> a" by (auto simp: image_iff)
    then have "filter (\<lambda>x. f x = a) xs = []" by (simp add: filter_empty_conv)
    with True show ?thesis by simp
  next
    case False
    with Cons show ?thesis by auto
  qed
qed

subsection \<open>Splitting a request and reading a count\<close>

lemma split_on_no_sep: "c \<notin> set xs \<Longrightarrow> split_on c xs = [xs]"
  by (induction xs) auto

lemma split_on_append_sep:
  "c \<notin> set xs \<Longrightarrow> split_on c (xs @ c # ys) = xs # split_on c ys"
  by (induction xs) auto

lemma digit_val_digit_char: "d < 10 \<Longrightarrow> digit_val (digit_char d) = Some d"
proof -
  assume "d < 10"
  then consider "d = 0" | "d = 1" | "d = 2" | "d = 3" | "d = 4" | "d = 5" | "d = 6" | "d = 7"
    | "d = 8" | "d = 9" by atomize_elim presburger
  then show ?thesis
    by cases (simp_all add: digit_val_def digit_char_def)
qed

lemma digit_not_special:
  "digit_val c = Some v \<Longrightarrow> \<not> is_space c \<and> c \<noteq> CHR ''_'' \<and> c \<noteq> CHR ''-'' \<and> c \<noteq> CHR ''+''"
  by (auto simp: digit_val_def is_space_def split: if_splits)

lemma dec_digits_all_digits:
  "all_digits ds \<Longrightarrow> dec_digits acc ds = Some (foldl (\<lambda>a c. 10 * a + the (digit_val c)) acc ds)"
proof (induction acc ds rule: dec_digits.induct)
  case (1 acc)
  then show ?case by simp
next
  case (2 acc c)
  then show ?case by (auto simp: all_digits_def)
next
  case (3 acc c d ds)
  from "3.prems" obtain v where v: "digit_val c = Some v" by (auto simp: all_digits_def)
  then have nu: "c \<noteq> CHR ''_''" using digit_not_special by blast
  from "3.prems" have rest: "all_digits (d # ds)" by (simp add: all_digits_def)
  from "3.IH"(2) [OF nu v rest] v nu show ?case by simp
qed

lemma str_nat_all_digits: "all_digits (str_nat n)"
proof (induction n rule: str_nat.induct)
  case (1 n)
  show ?case
  proof (cases "n < 10")
    case True
    then show ?thesis
      by (subst str_nat.simps) (simp add: all_digits_def digit_val_digit_char)
  next
    case False
    then have "all_digits (str_nat (n div 10))" by (rule "1.IH")
    moreover have "digit_val (digit_char (n mod 10)) = Some (n mod 10)"
      by (rule digit_val_digit_char) simp
    ultimately show ?thesis using False
      by (subst str_nat.simps) (simp add: all_digits_def)
  qed
qed

lemma str_nat_value: "foldl (\<lambda>a c. 10 * a + the (digit_val c)) 0 (str_nat n) = n"
proof (induction n rule: str_nat.induct)
  case (1 n)
  show ?case
  proof (cases "n < 10")
    case True
    then show ?thesis
      by (subst str_nat.simps) (simp add: digit_val_digit_char)
  next
    case False
    then have "foldl (\<lambda>a c. 10 * a + the (digit_val c)) 0 (str_nat (n div 10)) = n div 10"
      by (rule "1.IH")
    moreover have "digit_val (digit_char (n mod 10)) = Some (n mod 10)"
      by (rule digit_val_digit_char) simp
    ultimately show ?thesis using False
      by (subst str_nat.simps) simp
  qed
qed

lemma str_nat_not_Nil: "str_nat n \<noteq> []"
  by (subst str_nat.simps) simp

lemma dec_literal_str_nat: "dec_literal (str_nat n) = Some n"
proof -
  obtain c cs where s: "str_nat n = c # cs"
    using str_nat_not_Nil [of n] by (cases "str_nat n") auto
  have ad: "all_digits (c # cs)" using str_nat_all_digits [of n] s by simp
  then obtain v where v: "digit_val c = Some v" by (auto simp: all_digits_def)
  from ad have "all_digits cs" by (simp add: all_digits_def)
  then have "dec_digits v cs = Some (foldl (\<lambda>a c. 10 * a + the (digit_val c)) v cs)"
    by (rule dec_digits_all_digits)
  moreover have "foldl (\<lambda>a c. 10 * a + the (digit_val c)) 0 (c # cs) = n"
    using str_nat_value [of n] s by simp
  ultimately show ?thesis using s v by (simp add: dec_literal_def)
qed

lemma dropWhile_none: "\<forall>c \<in> set s. \<not> P c \<Longrightarrow> dropWhile P s = s"
  by (cases s) simp_all

lemma strip_no_space: "\<forall>c \<in> set s. \<not> is_space c \<Longrightarrow> strip s = s"
  by (simp add: strip_def dropWhile_none)

text \<open>
  \<^verbatim>\<open>int(str(n)) == n\<close> for a natural number \<open>n\<close>.
\<close>

lemma py_int_str_nat: "py_int (str_nat n) = Inr (int n)"
proof -
  have ad: "all_digits (str_nat n)" by (rule str_nat_all_digits)
  then have ns: "\<forall>c \<in> set (str_nat n). \<not> is_space c"
    using digit_not_special by (fastforce simp: all_digits_def)
  then have st: "strip (str_nat n) = str_nat n" by (rule strip_no_space)
  obtain c cs where s: "str_nat n = c # cs"
    using str_nat_not_Nil [of n] by (cases "str_nat n") auto
  with ad obtain v where "digit_val c = Some v" by (auto simp: all_digits_def)
  then have "c \<noteq> CHR ''-''" "c \<noteq> CHR ''+''" using digit_not_special by blast+
  then show ?thesis
    using st s dec_literal_str_nat [of n] by (simp add: py_int_def)
qed

lemma spec_messages_tokens:
  assumes "CHR '' '' \<notin> set D"
  shows "split_on CHR '' '' (''messages '' @ D @ '' '' @ str_nat k) = [''messages'', D, str_nat k]"
proof -
  have nk: "CHR '' '' \<notin> set (str_nat k)"
    using str_nat_all_digits [of k] digit_not_special
    by (fastforce simp: all_digits_def is_space_def)
  have "''messages '' @ D @ '' '' @ str_nat k = ''messages'' @ CHR '' '' # (D @ CHR '' '' # str_nat k)"
    by simp
  moreover have "split_on CHR '' '' (''messages'' @ CHR '' '' # (D @ CHR '' '' # str_nat k))
      = ''messages'' # split_on CHR '' '' (D @ CHR '' '' # str_nat k)"
    by (rule split_on_append_sep) simp
  moreover have "split_on CHR '' '' (D @ CHR '' '' # str_nat k) = D # split_on CHR '' '' (str_nat k)"
    using assms by (rule split_on_append_sep)
  moreover have "split_on CHR '' '' (str_nat k) = [str_nat k]"
    using nk by (rule split_on_no_sep)
  ultimately show ?thesis by simp
qed

lemma spec_messages_branch:
  "''messages '' @ rest \<noteq> ''dialogues''" "''messages '' @ rest \<noteq> ''masks''"
  "py_in ''messages'' (''messages '' @ rest)"
proof -
  have "prefix ''messages'' (''messages '' @ rest)" by simp
  then show "py_in ''messages'' (''messages '' @ rest)"
    unfolding py_in_def by (rule prefix_imp_sublist)
qed simp_all

subsection \<open>Sorting newest first\<close>

lemma distinct_map_insort_key:
  "distinct (map k (insort_key k x xs)) \<longleftrightarrow> k x \<notin> k ` set xs \<and> distinct (map k xs)"
  by (induction xs) (auto simp: set_insort_key)

lemma distinct_map_sort_key: "distinct (map k (sort_key k xs)) \<longleftrightarrow> distinct (map k xs)"
  by (induction xs) (simp_all add: distinct_map_insort_key)

text \<open>
  With distinct keys, \<^verbatim>\<open>sorted(..., reverse=True)\<close> is strictly descending.
\<close>

lemma sorted_reverse_descending:
  assumes "distinct (map k xs)"
  shows "sorted_wrt (\<lambda>a b. k b < k a) (sorted_reverse k xs)"
proof -
  have "distinct (map k (rev xs))" using assms by (simp flip: rev_map)
  then have "distinct (map k (sort_key k (rev xs)))" by (simp add: distinct_map_sort_key)
  moreover have "sorted (map k (sort_key k (rev xs)))" by (rule sorted_sort_key)
  ultimately have "sorted_wrt (<) (map k (sort_key k (rev xs)))"
    by (simp add: strict_sorted_iff)
  then have "sorted_wrt (\<lambda>a b. k a < k b) (sort_key k (rev xs))"
    by (simp add: sorted_wrt_map)
  then show ?thesis
    by (simp add: sorted_reverse_def sorted_wrt_rev)
qed

lemma set_sorted_reverse [simp]: "set (sorted_reverse k xs) = set xs"
  by (simp add: sorted_reverse_def)

lemma length_sorted_reverse [simp]: "length (sorted_reverse k xs) = length xs"
  by (simp add: sorted_reverse_def)

lemma take_largest:
  assumes "sorted_wrt (\<lambda>a b. k b < k a) ys"
  shows "sorted_wrt (\<lambda>a b. k b < k a) (take n ys)
       \<and> (\<forall>m \<in> set ys. m \<notin> set (take n ys) \<longrightarrow> (\<forall>l \<in> set (take n ys). k m < k l))"
proof -
  have a: "sorted_wrt (\<lambda>a b. k b < k a) (take n ys)"
    and b: "\<forall>x \<in> set (take n ys). \<forall>y \<in> set (drop n ys). k y < k x"
    using assms sorted_wrt_append [of "\<lambda>a b. k b < k a" "take n ys" "drop n ys"]
    by simp_all
  have "m \<in> set (drop n ys)" if "m \<in> set ys" "m \<notin> set (take n ys)" for m
  proof -
    from that(1) have "m \<in> set (take n ys @ drop n ys)" by simp
    with that(2) show ?thesis by (simp del: append_take_drop_id)
  qed
  with a b show ?thesis by blast
qed

lemma insort_key_last:
  "\<forall>y \<in> set acc. k y < k x \<Longrightarrow> insort_key k x acc = acc @ [x]"
  by (induction acc) auto

lemma foldr_insort_ascending:
  "sorted_wrt (\<lambda>a b. k a < k b) (acc @ xs) \<Longrightarrow>
   foldr (insort_key k) (rev xs) acc = acc @ xs"
proof (induction xs arbitrary: acc)
  case Nil
  then show ?case by simp
next
  case (Cons x xs)
  from Cons.prems have "\<forall>y \<in> set acc. k y < k x"
    by (simp add: sorted_wrt_append)
  then have i: "insort_key k x acc = acc @ [x]" by (rule insort_key_last)
  from Cons.prems have "sorted_wrt (\<lambda>a b. k a < k b) ((acc @ [x]) @ xs)" by simp
  then have "foldr (insort_key k) (rev xs) (acc @ [x]) = (acc @ [x]) @ xs" by (rule Cons.IH)
  with i show ?case by simp
qed

lemma sorted_reverse_ascending:
  "sorted_wrt (<) (map k xs) \<Longrightarrow> sorted_reverse k xs = rev xs"
  using foldr_insort_ascending [of k "[]" xs]
  by (simp add: sorted_reverse_def sort_key_def sorted_wrt_map)

subsection \<open>The example stores\<close>

lemma store_with_3:
  "store_with D 3 = \<lparr>masks = [default_mask],
                      dialogues = [\<lparr>dialogue_name = D, dialogue_mask_id = Some 1\<rparr>],
                      messages = [user_text D 1, user_text D 2, user_text D 3]\<rparr>"
  by (simp add: store_with_def upt_rec eval_nat_numeral)

lemma msg_id_user_text [simp]: "msg_id (user_text D i) = int i"
  by (simp add: user_text_def)

lemma dialogue_user_text [simp]: "message_dialogue_name (user_text D i) = Some D"
  by (simp add: user_text_def)

lemma rowid_order_store_with: "rowid_order (store_with D n)"
proof -
  have "sorted_wrt (<) [1..<Suc n]" by (rule sorted_wrt_upt)
  then have "sorted_wrt (\<lambda>a b. int a < int b) [1..<Suc n]" by simp
  then show ?thesis
    by (simp add: rowid_order_def store_with_def sorted_wrt_map comp_def del: upt_Suc)
qed

lemma messages_of_store_with:
  "filter (\<lambda>m. message_dialogue_name m = Some D) (messages (store_with D n)) =
     messages (store_with D n)"
  by (simp add: store_with_def del: upt_Suc)

lemma length_messages_store_with: "length (messages (store_with D n)) = n"
  by (simp add: store_with_def del: upt_Suc)

text \<open>
  On the example store the request for \<open>k\<close> of \<open>n\<close> messages gives the last \<open>k\<close>,
  newest first.
\<close>

lemma format_messages_store_with:
  assumes "CHR '' '' \<notin> set D" and "k \<le> n"
  shows "ChatSql_format None (store_with D n) (''messages '' @ D @ '' '' @ str_int (int k)) =
     Inr (Some (join newline (map line_message
                  (rev (map (user_text D) [Suc (n - k)..<Suc n])))), store_with D n, [])"
proof -
  define ms where "ms = map (user_text D) [1..<Suc n]"
  have spec: "''messages '' @ D @ '' '' @ str_int (int k) = ''messages '' @ D @ '' '' @ str_nat k"
    by (simp add: str_int_def)
  have tok: "split_on CHR '' '' (''messages '' @ D @ '' '' @ str_nat k) = [''messages'', D, str_nat k]"
    using assms(1) by (rule spec_messages_tokens)
  have dm: "Dialogue_messages (store_with D n) \<lparr>dialogue_name = D, dialogue_mask_id = Some 1\<rparr> = ms"
    by (simp add: Dialogue_messages_eq messages_of_store_with [simplified])
       (simp add: store_with_def ms_def del: upt_Suc)
  have "sorted_wrt (<) (map msg_id ms)"
    using rowid_order_store_with [of D n] by (simp add: rowid_order_def store_with_def ms_def del: upt_Suc)
  then have sr: "sorted_reverse msg_id ms = rev ms" by (rule sorted_reverse_ascending)
  have "take k (rev ms) = rev (drop (length ms - k) ms)" by (simp add: take_rev)
  also have "drop (length ms - k) ms = map (user_text D) [Suc (n - k)..<Suc n]"
    by (simp add: ms_def drop_map del: upt_Suc)
  finally have tk: "take k (rev ms) = rev (map (user_text D) [Suc (n - k)..<Suc n])" .
  have q: "Query_first (filter_by (\<lambda>d. dialogue_name d = D) (query_Dialogue (store_with D n))) =
             Some \<lparr>dialogue_name = D, dialogue_mask_id = Some 1\<rparr>"
    by (simp add: query_Dialogue_def store_with_def)
  show ?thesis
    unfolding spec ChatSql_format_def ChatSql_format_try_def
    using spec_messages_branch [of "D @ '' '' @ str_nat k"]
    by (simp add: tok py_int_str_nat slice_to_def q dm sr tk del: append.simps upt_Suc)
qed

lemma format_messages_30_5:
  "ChatSql_format None (store_with ''D'' 30) ''messages D 5'' =
     Inr (Some (join newline (map line_message (map (user_text ''D'') [30, 29, 28, 27, 26]))),
          store_with ''D'' 30, [])"
proof -
  have spec: "''messages '' @ ''D'' @ '' '' @ str_int (int 5) = ''messages D 5''"
    by (simp add: str_int_def str_nat.simps digit_char_def)
  have "CHR '' '' \<notin> set ''D''" by simp
  from format_messages_store_with [OF this, of 5 30]
  show ?thesis unfolding spec by simp
qed

subsection \<open>Creating a dialogue\<close>

text \<open>
  Claim C1: \<^verbatim>\<open>create_dialogue(D, M)\<close> inserts one dialogue row for \<open>D\<close> when none exists.
  The code does not: the test "already present" is made on the query object, which is
  true whatever the table holds, so the method returns before the insert. On the store
  that the first initialisation leaves (only the mask \<^verbatim>\<open>default\<close>),
  \<^verbatim>\<open>create_dialogue("D", "")\<close> changes nothing, and after two such calls the dialogue
  table is still empty.
\<close>

theorem create_dialogue_inserts_nothing:
  "store_after empty_store (ChatSql_init None None empty_store) = store_default
   \<and> create_dialogue None store_default ''D'' [] = Inr ((), store_default, [])
   \<and> dialogues (run t_load store_default
        [Call_create_dialogue None ''D'' [], Call_create_dialogue None ''D'' []]) = []"
  by (simp add: create_dialogue_no_change store_default_def empty_store_def default_mask_def
      ChatSql_init_def ChatSql_init_try_def add_mask_def add_mask_try_def next_rowid_def)

subsection \<open>The default send time\<close>

text \<open>
  Whatever the store and the other arguments, a call without \<^verbatim>\<open>send_time\<close> does what a
  call with the load time as \<^verbatim>\<open>send_time\<close> does.
\<close>

lemma add_message_omitted_time:
  "add_message t0 flt s D sd ty info ok None = add_message t0 flt s D sd ty info ok (Some t0)"
  unfolding add_message_def add_message_try_def add_message_default_def option.case
  by (rule refl)

text \<open>
  Claim C2: a call of \<^verbatim>\<open>add_message\<close> without \<^verbatim>\<open>send_time\<close> stores the clock value
  of that call. The code does not: the default was computed once, when the module was
  loaded (\<open>t_load\<close>), and two calls without the argument, whenever they are made, both
  store \<open>t_load\<close>.
\<close>

theorem add_message_default_time_is_load_time:
  "map send_time (messages (run t_load (store_with ''D'' 0)
       [Call_add_message None ''D'' USER TEXT ''0'' True None,
        Call_add_message None ''D'' USER TEXT ''1'' True None])) = [t_load, t_load]
   \<and> t_later \<noteq> t_load"
  by (simp add: store_with_def add_message_def add_message_try_def add_message_default_def
      query_Dialogue_def t_load_def t_later_def)

subsection \<open>The newest messages of a dialogue\<close>

text \<open>
  Claim C3, as stated for every dialogue name, fails for a name that holds a space: the
  request is cut at every space, so for the dialogue \<^verbatim>\<open>a b\<close> with one message the request
  \<^verbatim>\<open>messages a b 1\<close> looks for a dialogue named \<^verbatim>\<open>a\<close> and returns the "not found" line
  instead of the line of the message.
\<close>

theorem format_messages_spaced_name:
  "ChatSql_format None (store_with ''a b'' 1) (''messages '' @ ''a b'' @ '' '' @ str_int 1) =
     Inr (Some (lbl_not_found @ ''a'' @ lbl_this_dialogue), store_with ''a b'' 1, [])
   \<and> lbl_not_found @ ''a'' @ lbl_this_dialogue \<noteq> join newline [line_message (user_text ''a b'' 1)]
   \<and> messages (store_with ''a b'' 1) = [user_text ''a b'' 1]
   \<and> map dialogue_name (dialogues (store_with ''a b'' 1)) = [''a b'']"
  by (simp add: ChatSql_format_def ChatSql_format_try_def py_in_def sublist_code py_int_def
      strip_def is_space_def dec_literal_def digit_val_def str_int_def str_nat.simps
      digit_char_def store_with_def query_Dialogue_def lbl_not_found_def line_message_def
      lbl_msg_id_def)

text \<open>
  Claim C3, amended: for a dialogue name \<open>D\<close> without a space, a dialogue named \<open>D\<close>
  with at least \<open>k\<close> messages, and \<open>k\<close> written in decimal, the request
  \<^verbatim>\<open>messages D k\<close> returns exactly \<open>k\<close> lines, joined by newlines: the lines of \<open>k\<close>
  messages of \<open>D\<close>, in strictly descending order of id, every other message of \<open>D\<close>
  having a smaller id than each of them.
\<close>

theorem format_messages_newest_first:
  assumes "CHR '' '' \<notin> set D"
    and "D \<in> set (map dialogue_name (dialogues s))"
    and "rowid_order s"
    and "k \<le> length (filter (\<lambda>m. message_dialogue_name m = Some D) (messages s))"
  shows "\<exists>L. ChatSql_format None s (''messages '' @ D @ '' '' @ str_int (int k)) =
               Inr (Some (join newline (map line_message L)), s, [])
     \<and> length L = k
     \<and> set L \<subseteq> {m \<in> set (messages s). message_dialogue_name m = Some D}
     \<and> sorted_wrt (\<lambda>a b. msg_id b < msg_id a) L
     \<and> (\<forall>m \<in> set (messages s). message_dialogue_name m = Some D \<and> m \<notin> set L \<longrightarrow>
           (\<forall>l \<in> set L. msg_id m < msg_id l))"
proof -
  define ms where "ms = filter (\<lambda>m. message_dialogue_name m = Some D) (messages s)"
  define L where "L = take k (sorted_reverse msg_id ms)"
  obtain d where d: "Query_first (filter_by (\<lambda>d. dialogue_name d = D) (query_Dialogue s)) = Some d"
    and n: "dialogue_name d = D"
    using Query_first_dialogue_Some [OF assms(2)] by blast
  have dm: "Dialogue_messages s d = ms"
    using n by (simp add: Dialogue_messages_eq ms_def)
  have spec: "''messages '' @ D @ '' '' @ str_int (int k) = ''messages '' @ D @ '' '' @ str_nat k"
    by (simp add: str_int_def)
  have tok: "split_on CHR '' '' (''messages '' @ D @ '' '' @ str_nat k) = [''messages'', D, str_nat k]"
    using assms(1) by (rule spec_messages_tokens)
  have res: "ChatSql_format None s (''messages '' @ D @ '' '' @ str_int (int k)) =
               Inr (Some (join newline (map line_message L)), s, [])"
    unfolding spec ChatSql_format_def ChatSql_format_try_def
    using spec_messages_branch [of "D @ '' '' @ str_nat k"] d
    by (simp add: tok py_int_str_nat dm slice_to_def L_def del: append.simps)
  have "sorted_wrt (<) (map msg_id ms)"
    using assms(3) by (simp add: rowid_order_def ms_def sorted_wrt_map sorted_wrt_filter)
  then have "distinct (map msg_id ms)" by (simp add: strict_sorted_iff)
  then have desc: "sorted_wrt (\<lambda>a b. msg_id b < msg_id a) (sorted_reverse msg_id ms)"
    by (rule sorted_reverse_descending)
  from take_largest [OF desc, of k]
  have a: "sorted_wrt (\<lambda>a b. msg_id b < msg_id a) L"
    and b: "\<forall>m \<in> set ms. m \<notin> set L \<longrightarrow> (\<forall>l \<in> set L. msg_id m < msg_id l)"
    by (simp_all add: L_def)
  have len: "length L = k" using assms(4) by (simp add: L_def ms_def)
  have sub: "set L \<subseteq> set ms"
    unfolding L_def using set_take_subset [of k "sorted_reverse msg_id ms"] by simp
  from res len sub a b show ?thesis
    by (intro exI [of _ L]) (auto simp: ms_def)
qed

text \<open>
  The example of the specification: on a dialogue with the messages 1 to 30, a count of 5
  gives the lines of the messages 30, 29, 28, 27, 26 in that order.
\<close>

theorem format_messages_newest_first_witness:
  "CHR '' '' \<notin> set ''D''
   \<and> ''D'' \<in> set (map dialogue_name (dialogues (store_with ''D'' 30)))
   \<and> rowid_order (store_with ''D'' 30)
   \<and> 5 \<le> length (filter (\<lambda>m. message_dialogue_name m = Some ''D'') (messages (store_with ''D'' 30)))
   \<and> (\<exists>L. ChatSql_format None (store_with ''D'' 30) ''messages D 5'' =
               Inr (Some (join newline (map line_message L)), store_with ''D'' 30, [])
     \<and> length L = 5
     \<and> set L \<subseteq> {m \<in> set (messages (store_with ''D'' 30)). message_dialogue_name m = Some ''D''}
     \<and> sorted_wrt (\<lambda>a b. msg_id b < msg_id a) L
     \<and> (\<forall>m \<in> set (messages (store_with ''D'' 30)).
           message_dialogue_name m = Some ''D'' \<and> m \<notin> set L \<longrightarrow>
           (\<forall>l \<in> set L. msg_id m < msg_id l)))
   \<and> ChatSql_format None (store_with ''D'' 30) ''messages D 5'' =
       Inr (Some (join newline (map line_message (map (user_text ''D'') [30, 29, 28, 27, 26]))),
            store_with ''D'' 30, [])"
proof -
  have h1: "CHR '' '' \<notin> set ''D''" by simp
  have h2: "''D'' \<in> set (map dialogue_name (dialogues (store_with ''D'' 30)))"
    by (simp add: store_with_def)
  have h3: "rowid_order (store_with ''D'' 30)" by (rule rowid_order_store_with)
  have h4: "5 \<le> length (filter (\<lambda>m. message_dialogue_name m = Some ''D'')
                          (messages (store_with ''D'' 30)))"
    by (simp add: messages_of_store_with length_messages_store_with)
  have spec: "''messages '' @ ''D'' @ '' '' @ str_int (int 5) = ''messages D 5''"
    by (simp add: str_int_def str_nat.simps digit_char_def)
  from format_messages_newest_first [OF h1 h2 h3 h4]
  show ?thesis using h1 h2 h3 h4 format_messages_30_5 unfolding spec by blast
qed

subsection \<open>Malformed requests for messages\<close>

text \<open>
  Claim C4, as stated, fails when one of the two tokens is missing. The text
  \<^verbatim>\<open>Miss parameters\<close> is returned only when fewer than two pieces come out of the
  split. With one token after the word, that token is read both as the count (the last
  piece) and as the dialogue name (piece 1): \<^verbatim>\<open>messages D\<close> returns the text of the
  \<^verbatim>\<open>ValueError\<close> raised by \<^verbatim>\<open>int("D")\<close>, and \<^verbatim>\<open>messages 5\<close> looks for a dialogue
  named \<^verbatim>\<open>5\<close>.
\<close>

theorem format_messages_missing_count:
  "ChatSql_format None (store_with ''D'' 3) ''messages D'' =
     Inr (Some (''invalid literal for int() with base 10: '' @ [CHR 0x27] @ ''D'' @ [CHR 0x27]),
          store_with ''D'' 3,
          [Log (''invalid literal for int() with base 10: '' @ [CHR 0x27] @ ''D'' @ [CHR 0x27])])
   \<and> ChatSql_format None (store_with ''D'' 3) ''messages 5'' =
     Inr (Some (lbl_not_found @ ''5'' @ lbl_this_dialogue), store_with ''D'' 3, [])"
  by (simp add: ChatSql_format_def ChatSql_format_try_def py_in_def sublist_code py_int_def
      strip_def is_space_def dec_literal_def digit_val_def py_repr_def repr_char_def Let_def
      store_with_def query_Dialogue_def)

lemma messages_not_in_fixed:
  "\<not> py_in ''messages'' ''dialogues''" "\<not> py_in ''messages'' ''masks''"
  by (simp_all add: py_in_def sublist_code)

text \<open>
  Claim C4, amended: a \<^verbatim>\<open>messages\<close> request with nothing after the word (no space, so
  neither a dialogue name nor a count) yields the text \<^verbatim>\<open>Miss parameters\<close>; and no
  request, whatever it lacks, makes \<^verbatim>\<open>__format__\<close> raise.
\<close>

theorem format_messages_without_tokens:
  assumes "py_in ''messages'' spec" and "CHR '' '' \<notin> set spec"
  shows "ChatSql_format None s spec = Inr (Some ''Miss parameters'', s, [])
       \<and> returns (ChatSql_format flt s spec')"
proof -
  from assms(1) have "spec \<noteq> ''dialogues''" "spec \<noteq> ''masks''"
    using messages_not_in_fixed by auto
  moreover from assms(2) have "split_on CHR '' '' spec = [spec]"
    by (rule split_on_no_sep)
  ultimately have "ChatSql_format None s spec = Inr (Some ''Miss parameters'', s, [])"
    using assms(1) by (simp add: ChatSql_format_def ChatSql_format_try_def)
  moreover have "returns (ChatSql_format flt s spec')"
    by (simp add: ChatSql_format_def)
  ultimately show ?thesis by simp
qed

text \<open>
  The bare word \<^verbatim>\<open>messages\<close> is such a request; the request without a count returns
  as well.
\<close>

theorem format_messages_without_tokens_witness:
  "py_in ''messages'' ''messages'' \<and> CHR '' '' \<notin> set ''messages''
   \<and> ChatSql_format None (store_with ''D'' 3) ''messages'' =
        Inr (Some ''Miss parameters'', store_with ''D'' 3, [])
   \<and> returns (ChatSql_format None (store_with ''D'' 3) ''messages D'')"
proof -
  have h1: "py_in ''messages'' ''messages''" by (simp add: py_in_def)
  have h2: "CHR '' '' \<notin> set ''messages''" by simp
  from format_messages_without_tokens [OF h1 h2, of "store_with ''D'' 3" None "''messages D''"]
  show ?thesis using h1 h2 by simp
qed

subsection \<open>Reading the messages of a dialogue\<close>

text \<open>
  Claim C5: \<^verbatim>\<open>get_messages(D)\<close> returns exactly the messages of the dialogue \<open>D\<close>, in
  ascending order of their ids, and the empty list when no dialogue \<open>D\<close> exists.
\<close>

theorem get_messages_ascending:
  assumes "rowid_order s"
  shows "\<exists>ms. get_messages None s D = Inr (Some ms, s, [])
           \<and> (D \<in> set (map dialogue_name (dialogues s)) \<longrightarrow>
                ms = filter (\<lambda>m. message_dialogue_name m = Some D) (messages s))
           \<and> (D \<notin> set (map dialogue_name (dialogues s)) \<longrightarrow> ms = [])
           \<and> sorted_wrt (<) (map msg_id ms)"
proof (cases "D \<in> set (map dialogue_name (dialogues s))")
  case True
  then obtain d where d: "Query_first (filter_by (\<lambda>d. dialogue_name d = D) (query_Dialogue s)) = Some d"
    and n: "dialogue_name d = D"
    using Query_first_dialogue_Some by blast
  have "sorted_wrt (<) (map msg_id (filter (\<lambda>m. message_dialogue_name m = Some D) (messages s)))"
    using assms by (simp add: rowid_order_def sorted_wrt_map sorted_wrt_filter)
  with True d n show ?thesis
    by (simp add: get_messages_def get_messages_try_def Dialogue_messages_eq)
next
  case False
  then have "Query_first (filter_by (\<lambda>d. dialogue_name d = D) (query_Dialogue s)) = None"
    by (rule Query_first_dialogue_None)
  with False show ?thesis
    by (simp add: get_messages_def get_messages_try_def)
qed

text \<open>
  On a dialogue with the messages 1, 2, 3 the three come back in that order; an unknown
  name gives the empty list.
\<close>

theorem get_messages_ascending_witness:
  "rowid_order (store_with ''D'' 3)
   \<and> get_messages None (store_with ''D'' 3) ''D'' =
       Inr (Some [user_text ''D'' 1, user_text ''D'' 2, user_text ''D'' 3], store_with ''D'' 3, [])
   \<and> get_messages None (store_with ''D'' 3) ''E'' = Inr (Some [], store_with ''D'' 3, [])"
proof -
  have h: "rowid_order (store_with ''D'' 3)"
    by (simp add: rowid_order_def store_with_3 user_text_def)
  from get_messages_ascending [OF h, of "''D''"] get_messages_ascending [OF h, of "''E''"]
  show ?thesis using h
    by (auto simp: store_with_3 user_text_def)
qed

subsection \<open>Updating a message\<close>

text \<open>
  Claim C6, as stated for every integer id, fails for an id that does not fit SQLite's
  64-bit \<^verbatim>\<open>INTEGER\<close>: the lookup raises \<^verbatim>\<open>OverflowError\<close> when the id is bound, so the
  handler logs that error and "not found" is never printed, although no message has the
  id.
\<close>

theorem update_message_unbindable_id:
  "9223372036854775808 \<notin> set (map msg_id (messages (store_with ''D'' 3)))
   \<and> update_message None (store_with ''D'' 3) 9223372036854775808 ''x'' =
       Inr ((), store_with ''D'' 3, [Log ''Python int too large to convert to SQLite INTEGER''])"
  by (simp add: update_message_def update_message_try_def Query_get_def store_with_3)

text \<open>
  Claim C6, amended: for an id \<open>i\<close> in the range of a 64-bit integer,
  \<^verbatim>\<open>update_message(i, info)\<close> overwrites \<^verbatim>\<open>send_info\<close> of the message with id \<open>i\<close> and
  changes nothing else: masks, dialogues, the number and order of the messages, every
  other message and every other field stay as they were. When no message has id \<open>i\<close>
  the store is unchanged and "not found" is printed.
\<close>

theorem update_message_frame:
  assumes "- (2 ^ 63) \<le> i" and "i < 2 ^ 63"
  shows "\<exists>s' out. update_message None s i info = Inr ((), s', out)
     \<and> masks s' = masks s \<and> dialogues s' = dialogues s
     \<and> length (messages s') = length (messages s)
     \<and> (\<forall>j < length (messages s).
           messages s' ! j = (if msg_id (messages s ! j) = i
                              then (messages s ! j)\<lparr>send_info := info\<rparr>
                              else messages s ! j))
     \<and> (i \<in> set (map msg_id (messages s)) \<longrightarrow> out = [])
     \<and> (i \<notin> set (map msg_id (messages s)) \<longrightarrow>
           s' = s \<and> out = [Print (''Message with id '' @ str_int i @ '' not found'')])"
proof (cases "find (\<lambda>m. msg_id m = i) (messages s)")
  case None
  then have "\<forall>m \<in> set (messages s). msg_id m \<noteq> i"
    by (simp add: find_None_iff)
  with None assms show ?thesis
    by (auto simp: update_message_def update_message_try_def Query_get_def query_Message_def
        map_idI)
next
  case (Some message)
  then have "message \<in> set (messages s) \<and> msg_id message = i"
    using find_Some_holds [of "\<lambda>m. msg_id m = i" "messages s" message] by simp
  with Some assms show ?thesis
    by (auto simp: update_message_def update_message_try_def Query_get_def query_Message_def)
qed

text \<open>
  Updating message 2 of three rewrites its text only; updating the absent id 7 leaves the
  store as it was and prints the report.
\<close>

theorem update_message_frame_witness:
  "- (2 ^ 63) \<le> (2::int) \<and> (2::int) < 2 ^ 63 \<and> - (2 ^ 63) \<le> (7::int) \<and> (7::int) < 2 ^ 63
   \<and> update_message None (store_with ''D'' 3) 2 ''x'' =
     Inr ((), (store_with ''D'' 3)\<lparr>messages :=
                 [user_text ''D'' 1, (user_text ''D'' 2)\<lparr>send_info := ''x''\<rparr>, user_text ''D'' 3]\<rparr>, [])
   \<and> update_message None (store_with ''D'' 3) 7 ''x'' =
     Inr ((), store_with ''D'' 3, [Print ''Message with id 7 not found''])"
proof -
  have r2: "- (2 ^ 63) \<le> (2::int)" "(2::int) < 2 ^ 63" by simp_all
  have r7: "- (2 ^ 63) \<le> (7::int)" "(7::int) < 2 ^ 63" by simp_all
  from update_message_frame [OF r7, of "store_with ''D'' 3" "''x''"]
  have a: "update_message None (store_with ''D'' 3) 7 ''x'' =
     Inr ((), store_with ''D'' 3, [Print ''Message with id 7 not found''])"
    by (auto simp: store_with_3 user_text_def str_int_def str_nat.simps digit_char_def)
  from update_message_frame [OF r2, of "store_with ''D'' 3" "''x''"]
  obtain s' out where r: "update_message None (store_with ''D'' 3) 2 ''x'' = Inr ((), s', out)"
    and m: "masks s' = masks (store_with ''D'' 3)"
    and d: "dialogues s' = dialogues (store_with ''D'' 3)"
    and l: "length (messages s') = length (messages (store_with ''D'' 3))"
    and u: "\<forall>j < length (messages (store_with ''D'' 3)).
           messages s' ! j = (if msg_id (messages (store_with ''D'' 3) ! j) = 2
                              then (messages (store_with ''D'' 3) ! j)\<lparr>send_info := ''x''\<rparr>
                              else messages (store_with ''D'' 3) ! j)"
    and o: "2 \<in> set (map msg_id (messages (store_with ''D'' 3))) \<longrightarrow> out = []"
    by blast
  from o have "out = []" by (simp add: store_with_3 user_text_def)
  moreover have "messages s' = [user_text ''D'' 1, (user_text ''D'' 2)\<lparr>send_info := ''x''\<rparr>, user_text ''D'' 3]"
  proof (rule nth_equalityI)
    show "length (messages s') = length [user_text ''D'' 1, (user_text ''D'' 2)\<lparr>send_info := ''x''\<rparr>, user_text ''D'' 3]"
      using l by (simp add: store_with_3)
  next
    fix j assume "j < length (messages s')"
    then have "j < 3" using l by (simp add: store_with_3)
    then consider "j = 0" | "j = 1" | "j = 2" by linarith
    then show "messages s' ! j = [user_text ''D'' 1, (user_text ''D'' 2)\<lparr>send_info := ''x''\<rparr>, user_text ''D'' 3] ! j"
      using u by cases (simp_all add: store_with_3 user_text_def)
  qed
  ultimately show ?thesis using r m d a r2 r7
    by (cases s') (simp add: store_with_3)
qed

subsection \<open>A message for an unknown dialogue\<close>

text \<open>
  Claim C7: when no dialogue named \<open>D\<close> exists, \<^verbatim>\<open>add_message\<close> still inserts the
  message, with a null dialogue reference; the miss is printed, nothing is raised and the
  insert is not refused.
\<close>

theorem add_message_without_dialogue:
  assumes "D \<notin> set (map dialogue_name (dialogues s))"
  shows "add_message t0 None s D sd ty info ok (Some t) =
           Inr ((), s\<lparr>messages := messages s @
                        [\<lparr>msg_id = next_rowid (map msg_id (messages s)), sender = sd,
                          send_time = t, send_type = ty, send_info = info, send_succeed = ok,
                          message_dialogue_name = None\<rparr>]\<rparr>,
                [Print (''Dialogue with name '' @ D @ '' not found'')])"
  using Query_first_dialogue_None [OF assms]
  by (simp add: add_message_def add_message_try_def)

text \<open>
  A message for the unknown dialogue \<^verbatim>\<open>E\<close> is stored as row 4 with no dialogue.
\<close>

theorem add_message_without_dialogue_witness:
  "''E'' \<notin> set (map dialogue_name (dialogues (store_with ''D'' 3)))
   \<and> add_message t_load None (store_with ''D'' 3) ''E'' GPT IMAGE ''a.png'' False (Some t_later) =
       Inr ((), (store_with ''D'' 3)\<lparr>messages := messages (store_with ''D'' 3) @
                  [\<lparr>msg_id = 4, sender = GPT, send_time = t_later, send_type = IMAGE,
                    send_info = ''a.png'', send_succeed = False, message_dialogue_name = None\<rparr>]\<rparr>,
            [Print ''Dialogue with name E not found''])"
proof -
  have h: "''E'' \<notin> set (map dialogue_name (dialogues (store_with ''D'' 3)))"
    by (simp add: store_with_3)
  have n: "next_rowid (map msg_id (messages (store_with ''D'' 3))) = 4"
    by (simp add: store_with_3 user_text_def next_rowid_def)
  from add_message_without_dialogue [OF h, of t_load GPT IMAGE "''a.png''" False t_later]
  show ?thesis using h n by simp
qed

subsection \<open>Failures of the storage layer\<close>

text \<open>
  Claim C8, as stated, fails for the formatter: when the database cannot be reached and
  \<^verbatim>\<open>__format__\<close> lists the dialogues, the handler returns the text of the exception,
  which is neither absent nor empty.
\<close>

theorem format_failure_returns_text:
  "ChatSql_format (Some (At_access, db_unavailable)) store_default ''dialogues'' =
     Inr (Some ''(sqlite3.OperationalError) unable to open database file'', store_default,
          [Log ''(sqlite3.OperationalError) unable to open database file''])"
  by (simp add: ChatSql_format_def ChatSql_format_try_def fault_defs db_unavailable_def)

text \<open>
  Claim C8, amended. No exception leaves any of the eleven operations, whatever goes
  wrong inside. Whenever the \<^verbatim>\<open>try\<close> block of an operation ends with an exception \<open>e\<close>
  (a failure of the storage layer at any point, a refused constraint, a count or an id
  that cannot be read), the store is the one the call started with, the text of \<open>e\<close> is
  logged after whatever the block had printed, and the operation returns \<^verbatim>\<open>None\<close> --
  except \<^verbatim>\<open>__format__\<close>, which returns the text of \<open>e\<close> (\<^verbatim>\<open>create_dialogue\<close> also prints
  the text). In particular, when the session cannot be opened every operation ends so;
  \<^verbatim>\<open>add_mask\<close> and the initialisation end so for every kind of failure; and when the
  database cannot be reached, the \<^verbatim>\<open>get_mask\<close> nested in \<^verbatim>\<open>delete_mask\<close> logs the failure
  and \<^verbatim>\<open>delete_mask\<close> reports the mask as not found.
\<close>

theorem failures_caught_and_logged:
  "returns (ChatSql_init fe f s) \<and> returns (add_mask f s n d) \<and> returns (get_mask f s n)
   \<and> returns (delete_mask f fg s n) \<and> returns (create_dialogue f s n m)
   \<and> returns (get_dialogue f s n) \<and> returns (add_message tdef f s n sd ty info ok t)
   \<and> returns (update_message f s i info) \<and> returns (delete_message f s i)
   \<and> returns (get_messages f s n) \<and> returns (ChatSql_format f s spec)
   \<and> (ChatSql_init_try fe f s = Inl (e, out) \<longrightarrow>
        ChatSql_init fe f s = Inr ((), s, out @ [Log (str_exn e)]))
   \<and> (add_mask_try f s n d = Inl (e, out) \<longrightarrow>
        add_mask f s n d = Inr ((), s, out @ [Log (str_exn e)]))
   \<and> (get_mask_try f s n = Inl (e, out) \<longrightarrow>
        get_mask f s n = Inr (None, s, out @ [Log (str_exn e)]))
   \<and> (delete_mask_try f fg s n = Inl (e, out) \<longrightarrow>
        delete_mask f fg s n = Inr ((), s, out @ [Log (str_exn e)]))
   \<and> (create_dialogue_try f s n m = Inl (e, out) \<longrightarrow>
        create_dialogue f s n m = Inr ((), s, out @ [Log (str_exn e), Print (str_exn e)]))
   \<and> (get_dialogue_try f s n = Inl (e, out) \<longrightarrow>
        get_dialogue f s n = Inr (None, s, out @ [Log (str_exn e)]))
   \<and> (add_message_try tdef f s n sd ty info ok t = Inl (e, out) \<longrightarrow>
        add_message tdef f s n sd ty info ok t = Inr ((), s, out @ [Log (str_exn e)]))
   \<and> (update_message_try f s i info = Inl (e, out) \<longrightarrow>
        update_message f s i info = Inr ((), s, out @ [Log (str_exn e)]))
   \<and> (delete_message_try f s i = Inl (e, out) \<longrightarrow>
        delete_message f s i = Inr ((), s, out @ [Log (str_exn e)]))
   \<and> (get_messages_try f s n = Inl (e, out) \<longrightarrow>
        get_messages f s n = Inr (None, s, out @ [Log (str_exn e)]))
   \<and> (ChatSql_format_try f s spec = Inl (e, out) \<longrightarrow>
        ChatSql_format f s spec = Inr (Some (str_exn e), s, out @ [Log (str_exn e)]))
   \<and> get_mask (Some (At_open, e)) s n = Inr (None, s, [Log (str_exn e)])
   \<and> delete_mask (Some (At_open, e)) fg s n = Inr ((), s, [Log (str_exn e)])
   \<and> create_dialogue (Some (At_open, e)) s n m = Inr ((), s, [Log (str_exn e), Print (str_exn e)])
   \<and> get_dialogue (Some (At_open, e)) s n = Inr (None, s, [Log (str_exn e)])
   \<and> add_message tdef (Some (At_open, e)) s n sd ty info ok t = Inr ((), s, [Log (str_exn e)])
   \<and> update_message (Some (At_open, e)) s i info = Inr ((), s, [Log (str_exn e)])
   \<and> delete_message (Some (At_open, e)) s i = Inr ((), s, [Log (str_exn e)])
   \<and> get_messages (Some (At_open, e)) s n = Inr (None, s, [Log (str_exn e)])
   \<and> ChatSql_format (Some (At_open, e)) s spec = Inr (Some (str_exn e), s, [Log (str_exn e)])
   \<and> add_mask (Some (st, e)) s n d = Inr ((), s, [Log (str_exn e)])
   \<and> ChatSql_init (Some e) f s = Inr ((), s, [Log (str_exn e)])
   \<and> ChatSql_init None (Some (st, e)) s = Inr ((), s, [Log (str_exn e)])
   \<and> delete_mask (Some (At_access, e)) (Some (At_access, e)) s n =
        Inr ((), s, [Log (str_exn e), Print (''Mask with name '' @ n @ '' not found'')])"
proof -
  have r: "returns (ChatSql_init fe f s)" "returns (add_mask f s n d)" "returns (get_mask f s n)"
    "returns (delete_mask f fg s n)" "returns (create_dialogue f s n m)"
    "returns (get_dialogue f s n)" "returns (add_message tdef f s n sd ty info ok t)"
    "returns (update_message f s i info)" "returns (delete_message f s i)"
    "returns (get_messages f s n)" "returns (ChatSql_format f s spec)"
    by (simp_all add: ChatSql_init_def add_mask_def get_mask_def delete_mask_def
        create_dialogue_def get_dialogue_def add_message_def update_message_def
        delete_message_def get_messages_def ChatSql_format_def)
  have h: "ChatSql_init_try fe f s = Inl (e, out) \<longrightarrow>
        ChatSql_init fe f s = Inr ((), s, out @ [Log (str_exn e)])"
    "add_mask_try f s n d = Inl (e, out) \<longrightarrow>
        add_mask f s n d = Inr ((), s, out @ [Log (str_exn e)])"
    "get_mask_try f s n = Inl (e, out) \<longrightarrow>
        get_mask f s n = Inr (None, s, out @ [Log (str_exn e)])"
    "delete_mask_try f fg s n = Inl (e, out) \<longrightarrow>
        delete_mask f fg s n = Inr ((), s, out @ [Log (str_exn e)])"
    "create_dialogue_try f s n m = Inl (e, out) \<longrightarrow>
        create_dialogue f s n m = Inr ((), s, out @ [Log (str_exn e), Print (str_exn e)])"
    "get_dialogue_try f s n = Inl (e, out) \<longrightarrow>
        get_dialogue f s n = Inr (None, s, out @ [Log (str_exn e)])"
    "add_message_try tdef f s n sd ty info ok t = Inl (e, out) \<longrightarrow>
        add_message tdef f s n sd ty info ok t = Inr ((), s, out @ [Log (str_exn e)])"
    "update_message_try f s i info = Inl (e, out) \<longrightarrow>
        update_message f s i info = Inr ((), s, out @ [Log (str_exn e)])"
    "delete_message_try f s i = Inl (e, out) \<longrightarrow>
        delete_message f s i = Inr ((), s, out @ [Log (str_exn e)])"
    "get_messages_try f s n = Inl (e, out) \<longrightarrow>
        get_messages f s n = Inr (None, s, out @ [Log (str_exn e)])"
    "ChatSql_format_try f s spec = Inl (e, out) \<longrightarrow>
        ChatSql_format f s spec = Inr (Some (str_exn e), s, out @ [Log (str_exn e)])"
    by (simp_all add: ChatSql_init_def add_mask_def get_mask_def delete_mask_def
        create_dialogue_def get_dialogue_def add_message_def update_message_def
        delete_message_def get_messages_def ChatSql_format_def)
  have g: "get_mask (Some (At_open, e)) s n = Inr (None, s, [Log (str_exn e)])"
    "get_dialogue (Some (At_open, e)) s n = Inr (None, s, [Log (str_exn e)])"
    "get_messages (Some (At_open, e)) s n = Inr (None, s, [Log (str_exn e)])"
    by (simp_all add: get_mask_def get_mask_try_def get_dialogue_def get_dialogue_try_def
        get_messages_def get_messages_try_def DB_session_def)
  have w: "delete_mask (Some (At_open, e)) fg s n = Inr ((), s, [Log (str_exn e)])"
    "create_dialogue (Some (At_open, e)) s n m = Inr ((), s, [Log (str_exn e), Print (str_exn e)])"
    "add_message tdef (Some (At_open, e)) s n sd ty info ok t = Inr ((), s, [Log (str_exn e)])"
    "update_message (Some (At_open, e)) s i info = Inr ((), s, [Log (str_exn e)])"
    "delete_message (Some (At_open, e)) s i = Inr ((), s, [Log (str_exn e)])"
    "ChatSql_format (Some (At_open, e)) s spec = Inr (Some (str_exn e), s, [Log (str_exn e)])"
    by (simp_all add: delete_mask_def delete_mask_try_def create_dialogue_def
        create_dialogue_try_def add_message_def add_message_try_def update_message_def
        update_message_try_def delete_message_def delete_message_try_def ChatSql_format_def
        ChatSql_format_try_def DB_session_def)
  have a: "add_mask (Some (st, e)) s n d = Inr ((), s, [Log (str_exn e)])" for s n d
    by (cases st) (simp_all add: add_mask_def add_mask_try_def fault_defs)
  have i: "ChatSql_init (Some e) f s = Inr ((), s, [Log (str_exn e)])"
    "ChatSql_init None (Some (st, e)) s = Inr ((), s, [Log (str_exn e)])"
    by (simp_all add: ChatSql_init_def ChatSql_init_try_def a)
  have d: "delete_mask (Some (At_access, e)) (Some (At_access, e)) s n =
        Inr ((), s, [Log (str_exn e), Print (''Mask with name '' @ n @ '' not found'')])"
    by (simp add: delete_mask_def delete_mask_try_def get_mask_def get_mask_try_def fault_defs)
  from r h g w a i d show ?thesis by simp
qed

text \<open>
  With the session factory unbound every \<^verbatim>\<open>try\<close> block ends with that exception, and
  each operation logs it and returns. With the file locked, \<^verbatim>\<open>add_message\<close> for an
  unknown dialogue has printed its report before the commit fails. With the file
  missing, listing the dialogues returns the failure text, while a request that never
  reads the database returns what it always returns.
\<close>

theorem failures_caught_and_logged_witness:
  "ChatSql_init_try (Some session_unbound) None store_default = Inl (session_unbound, [])
   \<and> add_mask_try (Some (At_open, session_unbound)) store_default ''M1'' [] = Inl (session_unbound, [])
   \<and> get_mask_try (Some (At_open, session_unbound)) store_default ''M1'' = Inl (session_unbound, [])
   \<and> delete_mask_try (Some (At_open, session_unbound)) None store_default ''M1'' =
        Inl (session_unbound, [])
   \<and> create_dialogue_try (Some (At_open, session_unbound)) store_default ''M1'' [] =
        Inl (session_unbound, [])
   \<and> get_dialogue_try (Some (At_open, session_unbound)) store_default ''M1'' =
        Inl (session_unbound, [])
   \<and> add_message_try t_load (Some (At_open, session_unbound)) store_default ''M1'' USER TEXT
        ''hi'' True None = Inl (session_unbound, [])
   \<and> update_message_try (Some (At_open, session_unbound)) store_default 1 ''hi'' =
        Inl (session_unbound, [])
   \<and> delete_message_try (Some (At_open, session_unbound)) store_default 1 =
        Inl (session_unbound, [])
   \<and> get_messages_try (Some (At_open, session_unbound)) store_default ''M1'' =
        Inl (session_unbound, [])
   \<and> ChatSql_format_try (Some (At_open, session_unbound)) store_default ''help'' =
        Inl (session_unbound, [])
   \<and> get_messages (Some (At_open, session_unbound)) store_default ''M1'' =
        Inr (None, store_default, [Log (str_exn session_unbound)])
   \<and> add_message_try t_load (Some (At_commit, db_locked)) store_default ''E'' USER TEXT ''hi''
        True None = Inl (db_locked, [Print ''Dialogue with name E not found''])
   \<and> add_message t_load (Some (At_commit, db_locked)) store_default ''E'' USER TEXT ''hi''
        True None =
        Inr ((), store_default, [Print ''Dialogue with name E not found'',
                                 Log ''(sqlite3.OperationalError) database is locked''])
   \<and> ChatSql_format_try (Some (At_access, db_unavailable)) store_default ''dialogues'' =
        Inl (db_unavailable, [])
   \<and> ChatSql_format (Some (At_access, db_unavailable)) store_default ''dialogues'' =
        Inr (Some ''(sqlite3.OperationalError) unable to open database file'', store_default,
             [Log ''(sqlite3.OperationalError) unable to open database file''])
   \<and> ChatSql_format (Some (At_access, db_unavailable)) store_default ''help'' =
        Inr (None, store_default, [Log ''Unknown format specifier''])
   \<and> ChatSql_format (Some (At_access, db_unavailable)) store_default ''messages'' =
        Inr (Some ''Miss parameters'', store_default, [])"
proof -
  have p: "ChatSql_init_try (Some session_unbound) None store_default = Inl (session_unbound, [])"
    "add_mask_try (Some (At_open, session_unbound)) store_default ''M1'' [] = Inl (session_unbound, [])"
    "get_mask_try (Some (At_open, session_unbound)) store_default ''M1'' = Inl (session_unbound, [])"
    "delete_mask_try (Some (At_open, session_unbound)) None store_default ''M1'' =
        Inl (session_unbound, [])"
    "create_dialogue_try (Some (At_open, session_unbound)) store_default ''M1'' [] =
        Inl (session_unbound, [])"
    "get_dialogue_try (Some (At_open, session_unbound)) store_default ''M1'' =
        Inl (session_unbound, [])"
    "add_message_try t_load (Some (At_open, session_unbound)) store_default ''M1'' USER TEXT
        ''hi'' True None = Inl (session_unbound, [])"
    "update_message_try (Some (At_open, session_unbound)) store_default 1 ''hi'' =
        Inl (session_unbound, [])"
    "delete_message_try (Some (At_open, session_unbound)) store_default 1 =
        Inl (session_unbound, [])"
    "get_messages_try (Some (At_open, session_unbound)) store_default ''M1'' =
        Inl (session_unbound, [])"
    "ChatSql_format_try (Some (At_open, session_unbound)) store_default ''help'' =
        Inl (session_unbound, [])"
    by (simp_all add: ChatSql_init_try_def add_mask_try_def get_mask_try_def delete_mask_try_def
        create_dialogue_try_def get_dialogue_try_def add_message_try_def update_message_try_def
        delete_message_try_def get_messages_try_def ChatSql_format_try_def DB_session_def)
  have q: "add_message_try t_load (Some (At_commit, db_locked)) store_default ''E'' USER TEXT ''hi''
        True None = Inl (db_locked, [Print ''Dialogue with name E not found''])"
    by (simp add: add_message_try_def fault_defs store_default_def query_Dialogue_def)
  have c: "ChatSql_format_try (Some (At_access, db_unavailable)) store_default ''dialogues'' =
        Inl (db_unavailable, [])"
    by (simp add: ChatSql_format_try_def fault_defs)
  have n: "ChatSql_format (Some (At_access, db_unavailable)) store_default ''help'' =
        Inr (None, store_default, [Log ''Unknown format specifier''])"
    "ChatSql_format (Some (At_access, db_unavailable)) store_default ''messages'' =
        Inr (Some ''Miss parameters'', store_default, [])"
    by (simp_all add: ChatSql_format_def ChatSql_format_try_def fault_defs py_in_def sublist_code)
  from failures_caught_and_logged [where fe = "Some session_unbound" and f = "Some (At_open, session_unbound)"
      and fg = None and s = store_default and n = "''M1''" and d = "[]" and m = "[]"
      and tdef = t_load and sd = USER and ty = TEXT and info = "''hi''" and ok = True and t = None
      and i = 1 and spec = "''help''" and e = session_unbound and out = "[]"]
    failures_caught_and_logged [where f = "Some (At_commit, db_locked)" and s = store_default
      and n = "''E''" and tdef = t_load and sd = USER and ty = TEXT and info = "''hi''" and ok = True
      and t = None and e = db_locked and out = "[Print ''Dialogue with name E not found'']"]
    failures_caught_and_logged [where f = "Some (At_access, db_unavailable)" and s = store_default
      and spec = "''dialogues''" and e = db_unavailable and out = "[]"]
  show ?thesis using p q c n
    by (simp add: db_locked_def db_unavailable_def)
qed

subsection \<open>Unique mask names\<close>

text \<open>
  Claim C9: mask names stay unique. From a store with unique mask names, every sequence
  of calls leads to a store with unique mask names; \<^verbatim>\<open>add_mask\<close> on a name already
  present returns normally, leaves the store as it was and logs the refused constraint;
  and initialising twice returns normally both times and leaves exactly one mask named
  \<^verbatim>\<open>default\<close>.
\<close>

theorem mask_names_stay_unique:
  assumes "mask_names_unique s"
  shows "mask_names_unique (run t0 s cs)
       \<and> (n \<in> set (map mask_name (masks s)) \<longrightarrow>
            add_mask None s n d =
              Inr ((), s, [Log (str_exn (IntegrityError ''UNIQUE constraint failed: mask.mask_name''))]))
       \<and> returns (ChatSql_init None None s)
       \<and> returns (ChatSql_init None None (store_after s (ChatSql_init None None s)))
       \<and> length (filter (\<lambda>m. mask_name m = ''default'')
            (masks (run t0 s [Call_init None None, Call_init None None]))) = 1"
proof -
  have a: "mask_names_unique (run t0 s cs)"
    using assms by (rule run_unique)
  have b: "n \<in> set (map mask_name (masks s)) \<longrightarrow>
            add_mask None s n d =
              Inr ((), s, [Log (str_exn (IntegrityError ''UNIQUE constraint failed: mask.mask_name''))])"
    by (simp add: add_mask_def add_mask_try_def)
  have c: "returns (ChatSql_init None None s')" for s'
    by (simp add: ChatSql_init_def)
  define s1 where "s1 = store_after s (ChatSql_init None None s)"
  have s1: "''default'' \<in> set (map mask_name (masks s1))"
    by (auto simp: s1_def ChatSql_init_def ChatSql_init_try_def add_mask_def add_mask_try_def Let_def)
  have u1: "mask_names_unique s1"
    unfolding s1_def using assms by (rule init_unique)
  have s2: "store_after s1 (ChatSql_init None None s1) = s1"
    using s1 by (simp add: ChatSql_init_def ChatSql_init_try_def add_mask_def add_mask_try_def)
  have "length (filter (\<lambda>m. mask_name m = ''default'') (masks s1)) = 1"
    using u1 s1 unfolding mask_names_unique_def by (rule unique_key_once)
  then show ?thesis using a b c s2 by (simp add: s1_def)
qed

text \<open>
  On the store that holds the default mask: adding \<^verbatim>\<open>M1\<close> twice, deleting a mask that
  does not exist and initialising again keeps the names unique; adding \<^verbatim>\<open>default\<close> again
  is refused and logged.
\<close>

theorem mask_names_stay_unique_witness:
  "mask_names_unique store_default
   \<and> mask_names_unique (run t_load store_default
         [Call_add_mask None ''M1'' ''test mask'', Call_add_mask None ''M1'' ''again'',
          Call_delete_mask None None ''ghost'', Call_init None None])
   \<and> ''default'' \<in> set (map mask_name (masks store_default))
   \<and> add_mask None store_default ''default'' [] =
         Inr ((), store_default,
              [Log ''(sqlite3.IntegrityError) UNIQUE constraint failed: mask.mask_name''])
   \<and> returns (ChatSql_init None None store_default)
   \<and> length (filter (\<lambda>m. mask_name m = ''default'')
         (masks (run t_load store_default [Call_init None None, Call_init None None]))) = 1"
proof -
  have h: "mask_names_unique store_default"
    by (simp add: mask_names_unique_def store_default_def)
  have n: "''default'' \<in> set (map mask_name (masks store_default))"
    by (simp add: store_default_def default_mask_def)
  from mask_names_stay_unique [OF h, of t_load
      "[Call_add_mask None ''M1'' ''test mask'', Call_add_mask None ''M1'' ''again'',
        Call_delete_mask None None ''ghost'', Call_init None None]" "''default''" "[]"]
  show ?thesis using h n by simp
qed

subsection \<open>Unknown format specifiers\<close>

text \<open>
  Claim C10: for a format spec that is neither \<^verbatim>\<open>dialogues\<close> nor \<^verbatim>\<open>masks\<close> and does
  not contain \<^verbatim>\<open>messages\<close>, \<^verbatim>\<open>__format__\<close> logs "Unknown format specifier" and
  returns \<^verbatim>\<open>None\<close>, so the built-in \<^verbatim>\<open>format\<close>, which requires a string, raises
  \<^verbatim>\<open>TypeError\<close>.
\<close>

theorem format_unknown_returns_None:
  assumes "spec \<noteq> ''dialogues''" and "spec \<noteq> ''masks''" and "\<not> py_in ''messages'' spec"
  shows "ChatSql_format None s spec = Inr (None, s, [Log ''Unknown format specifier''])
       \<and> py_format None s spec = Inl (TypeError ''__format__ must return a str, not NoneType'')"
  using assms by (simp add: py_format_def ChatSql_format_def ChatSql_format_try_def)

text \<open>
  The spec \<^verbatim>\<open>help\<close> is such an input.
\<close>

theorem format_unknown_returns_None_witness:
  "''help'' \<noteq> ''dialogues'' \<and> ''help'' \<noteq> ''masks'' \<and> \<not> py_in ''messages'' ''help''
   \<and> ChatSql_format None store_default ''help'' =
       Inr (None, store_default, [Log ''Unknown format specifier''])
   \<and> py_format None store_default ''help'' =
       Inl (TypeError ''__format__ must return a str, not NoneType'')"
proof -
  have h: "\<not> py_in ''messages'' ''help''"
    by (simp add: py_in_def sublist_code)
  from format_unknown_returns_None [OF _ _ h, of store_default]
  show ?thesis using h by simp
qed

end
